theory Spec2Isabelle
  imports Complex_Main
begin

section \<open>Conventions\<close>

text \<open>
  The development embeds the synchronisation control plane of SyncStream:
  \<^item> \<open>src/sync_controller.py\<close> (\<open>DeviceState\<close>, \<open>SyncController\<close>);
  \<^item> \<open>src/src/sync_controller.py\<close>, the revision of the same module with configurable
    parameters (names prefixed \<open>cfg_\<close> here);
  \<^item> \<open>src/audio_buffer.py\<close> (\<open>AudioBuffer\<close>);
  \<^item> \<open>src/drift_detector.py\<close> (\<open>DriftDetector\<close>, validation and bookkeeping);
  \<^item> \<open>src/src/protocol.py\<close> (message dataclasses, \<open>SyncStreamProtocol\<close>).

  Python floats are modelled as the reals: rounding, overflow, infinities and NaN are outside
  the model. \<open>time.time()\<close> is an explicit argument (\<open>current_time\<close>) of every function
  that reads the clock. Logging is omitted. A Python exception is a value of type
  \<open>error\<close>; a function that can raise returns \<open>error + 'a\<close> with \<open>Inl\<close> the exception.
\<close>

datatype error = TypeError | ValueError | KeyError | IndexError | StatisticsError | ZeroDivisionError

section \<open>Library functions used by the sources\<close>

text \<open>\<open>statistics.mean(data)\<close>: raises \<open>StatisticsError\<close> on empty data.\<close>

definition statistics_mean :: "real list \<Rightarrow> error + real" where
  "statistics_mean xs =
     (if xs = [] then Inl StatisticsError else Inr (sum_list xs / real (length xs)))"

text \<open>
  \<open>statistics.variance(data)\<close>: the sample variance, the sum of squared deviations from
  the mean divided by \<open>n - 1\<close>; raises \<open>StatisticsError\<close> on fewer than two data points.
\<close>

definition statistics_variance :: "real list \<Rightarrow> error + real" where
  "statistics_variance xs =
     (if length xs < 2 then Inl StatisticsError
      else let m = sum_list xs / real (length xs)
           in Inr (sum_list (map (\<lambda>x. (x - m)\<^sup>2) xs) / real (length xs - 1)))"

text \<open>
  \<open>statistics.median(data)\<close>: sorts the data; the middle element for an odd count, the mean
  of the two middle elements for an even count; raises \<open>StatisticsError\<close> on empty data.
\<close>

definition statistics_median :: "real list \<Rightarrow> error + real" where
  "statistics_median xs =
     (let data = sort xs; n = length data
      in if n = 0 then Inl StatisticsError
         else if n mod 2 = 1 then Inr (data ! (n div 2))
         else Inr ((data ! (n div 2 - 1) + data ! (n div 2)) / 2))"

text \<open>
  \<open>deque(maxlen=n).append(x)\<close>: appends on the right and, when the deque is full, drops
  the leftmost element; a deque of maximal length 0 stays empty.
\<close>

definition deque_append :: "nat \<Rightarrow> 'a list \<Rightarrow> 'a \<Rightarrow> 'a list" where
  "deque_append maxlen q x =
     (if maxlen = 0 then []
      else if length q \<ge> maxlen then drop (Suc (length q - maxlen)) q @ [x]
      else q @ [x])"

text \<open>The slice \<open>xs[-n:]\<close> for a positive literal \<open>n\<close>: the last \<open>n\<close> elements.\<close>

definition last_n :: "nat \<Rightarrow> 'a list \<Rightarrow> 'a list" where
  "last_n n xs = drop (length xs - n) xs"

section \<open>DeviceState (src/sync\_controller.py)\<close>

text \<open>An entry of \<open>drift_history\<close>: the dict with keys \<open>drift_ms\<close>, \<open>timestamp\<close>, \<open>signal_strength\<close>.\<close>

record drift_entry =
  e_drift_ms :: real
  e_timestamp :: real
  e_signal_strength :: real

record device_state =
  device_id :: string
  base_latency_ms :: real
  drift_history :: "drift_entry list"
  last_drift_ms :: real
  last_drift_time :: real
  current_offset_ms :: real
  target_offset_ms :: real
  drift_variance :: real
  avg_drift_ms :: real
  connection_quality :: real
  is_online :: bool
  last_seen :: real

text \<open>\<open>DeviceState.__init__\<close>.\<close>

definition DeviceState :: "string \<Rightarrow> real \<Rightarrow> device_state" where
  "DeviceState did base_latency =
     \<lparr> device_id = did, base_latency_ms = base_latency, drift_history = [],
       last_drift_ms = 0, last_drift_time = 0, current_offset_ms = 0, target_offset_ms = 0,
       drift_variance = 0, avg_drift_ms = 0, connection_quality = 1,
       is_online = False, last_seen = 0 \<rparr>"

text \<open>
  The statistics block of \<open>update_drift\<close>, entered when the history holds at least three
  entries: mean and variance of the last ten drifts, then the connection quality.
\<close>

definition update_statistics :: "device_state \<Rightarrow> real \<Rightarrow> error + device_state" where
  "update_statistics d signal_strength =
     (let recent_drifts = map e_drift_ms (last_n 10 (drift_history d))
      in case statistics_mean recent_drifts of
           Inl e \<Rightarrow> Inl e
         | Inr avg \<Rightarrow>
            (case (if length recent_drifts > 1 then statistics_variance recent_drifts else Inr 0) of
               Inl e \<Rightarrow> Inl e
             | Inr var \<Rightarrow>
                (let signal_quality = max 0 (min 1 ((signal_strength + 80) / 30));
                     drift_stability = max 0 (min 1 (1 - var / 100))
                 in Inr (d\<lparr> avg_drift_ms := avg, drift_variance := var,
                            connection_quality := (signal_quality + drift_stability) / 2 \<rparr>))))"

text \<open>\<open>DeviceState.update_drift(drift_ms, signal_strength)\<close>.\<close>

definition update_drift :: "device_state \<Rightarrow> real \<Rightarrow> real \<Rightarrow> real \<Rightarrow> error + device_state" where
  "update_drift d drift signal_strength current_time =
     (let d1 = d\<lparr> drift_history := deque_append 50 (drift_history d)
                       \<lparr> e_drift_ms = drift, e_timestamp = current_time,
                         e_signal_strength = signal_strength \<rparr>,
                   last_drift_ms := drift, last_drift_time := current_time,
                   is_online := True, last_seen := current_time \<rparr>
      in if length (drift_history d1) \<ge> 3 then update_statistics d1 signal_strength
         else Inr d1)"

text \<open>\<open>DeviceState.calculate_target_offset(reference_drift)\<close>.\<close>

definition calculate_target_offset :: "device_state \<Rightarrow> real \<Rightarrow> real" where
  "calculate_target_offset d reference_drift =
     (if drift_history d = [] then base_latency_ms d
      else let smoothed_drift = (if length (drift_history d) \<ge> 3 then avg_drift_ms d
                                 else last_drift_ms d);
               compensation = reference_drift - smoothed_drift
           in base_latency_ms d + compensation)"

text \<open>\<open>DeviceState.is_stable(max_variance)\<close>; the default argument is 25.\<close>

definition is_stable_with :: "device_state \<Rightarrow> real \<Rightarrow> bool" where
  "is_stable_with d max_variance \<longleftrightarrow>
     length (drift_history d) \<ge> 5 \<and> drift_variance d \<le> max_variance
       \<and> connection_quality d \<ge> 1/2"

definition is_stable :: "device_state \<Rightarrow> bool" where
  "is_stable d \<longleftrightarrow> is_stable_with d 25"

text \<open>
  The connection-quality formula of the specification: the mean of the signal-quality term
  and the drift-stability term.
\<close>

definition quality_formula :: "real \<Rightarrow> real \<Rightarrow> real" where
  "quality_formula signal_strength variance =
     (max 0 (min 1 ((signal_strength + 80) / 30)) + max 0 (min 1 (1 - variance / 100))) / 2"

section \<open>SyncController (src/sync\_controller.py)\<close>

text \<open>
  A Python dict that is iterated is an association list in insertion order with distinct
  keys: \<open>dict_get\<close> is \<open>d.get(k)\<close>, \<open>dict_set\<close> is \<open>d[k] = v\<close> (a new key goes to the
  end, an existing key keeps its place).
\<close>

definition dict_get :: "('k \<times> 'v) list \<Rightarrow> 'k \<Rightarrow> 'v option" where
  "dict_get kvs k = map_of kvs k"

definition dict_set :: "('k \<times> 'v) list \<Rightarrow> 'k \<Rightarrow> 'v \<Rightarrow> ('k \<times> 'v) list" where
  "dict_set kvs k v =
     (if k \<in> fst ` set kvs then map (\<lambda>(k', v'). if k' = k then (k', v) else (k', v')) kvs
      else kvs @ [(k, v)])"

text \<open>
  The \<open>config\<close> dict of \<open>register_device\<close>, with the three keys the controller reads;
  an absent key is \<open>None\<close>.
\<close>

record device_config =
  conf_base_latency_ms :: "real option"
  conf_type :: "string option"
  conf_sync_group :: "string option"

record sync_controller =
  sync_tolerance_ms :: real
  adjustment_rate :: real
  devices :: "string \<rightharpoonup> device_state"
  device_configs :: "string \<rightharpoonup> device_config"
  reference_device :: "string option"
  sync_groups :: "(string \<times> string list) list"
  sync_events :: nat
  last_sync_time :: real

text \<open>\<open>SyncController.__init__(sync_tolerance_ms, adjustment_rate)\<close>; the defaults are 10 and 0.1.\<close>

definition SyncController :: "real \<Rightarrow> real \<Rightarrow> sync_controller" where
  "SyncController tolerance rate =
     \<lparr> sync_tolerance_ms = tolerance, adjustment_rate = rate, devices = Map.empty,
       device_configs = Map.empty, reference_device = None,
       sync_groups = [(''default'', [])], sync_events = 0, last_sync_time = 0 \<rparr>"

text \<open>\<open>SyncController.register_device(device_id, config)\<close>.\<close>

definition register_device :: "sync_controller \<Rightarrow> string \<Rightarrow> device_config \<Rightarrow> sync_controller" where
  "register_device c did config =
     (let base_latency = (case conf_base_latency_ms config of None \<Rightarrow> 0 | Some b \<Rightarrow> b);
          sync_group = (case conf_sync_group config of None \<Rightarrow> ''default'' | Some g \<Rightarrow> g);
          groups1 = (if dict_get (sync_groups c) sync_group = None
                     then dict_set (sync_groups c) sync_group []
                     else sync_groups c);
          members = (case dict_get groups1 sync_group of None \<Rightarrow> [] | Some m \<Rightarrow> m);
          groups2 = (if did \<notin> set members then dict_set groups1 sync_group (members @ [did])
                     else groups1)
      in c\<lparr> devices := (devices c)(did \<mapsto> DeviceState did base_latency),
             device_configs := (device_configs c)(did \<mapsto> config),
             sync_groups := groups2 \<rparr>)"

text \<open>The first loop of \<open>_sync_group\<close>: the known, online and stable devices of the group.\<close>

definition stable_devices :: "sync_controller \<Rightarrow> string list \<Rightarrow> string list" where
  "stable_devices c device_ids =
     filter (\<lambda>i. case devices c i of None \<Rightarrow> False | Some d \<Rightarrow> is_online d \<and> is_stable d)
            device_ids"

text \<open>
  The body of the second loop of \<open>_sync_group\<close> for one known device: the new target, the
  tolerance gate, the gradual adjustment. The result is the device and whether it was adjusted.
\<close>

definition adjust_device :: "real \<Rightarrow> real \<Rightarrow> real \<Rightarrow> device_state \<Rightarrow> device_state \<times> bool" where
  "adjust_device tolerance rate reference_drift device =
     (let new_target = calculate_target_offset device reference_drift;
          offset_diff = \<bar>new_target - target_offset_ms device\<bar>
      in if offset_diff > tolerance
         then (let adjustment = (new_target - current_offset_ms device) * rate
               in (device\<lparr> current_offset_ms := current_offset_ms device + adjustment,
                            target_offset_ms := new_target \<rparr>, True))
         else (device, False))"

text \<open>
  The second loop of \<open>_sync_group\<close> over the ids of the group, threading the device map and
  the count \<open>adjustments_made\<close>; an id that is not registered is skipped.
\<close>

fun adjust_devices ::
  "real \<Rightarrow> real \<Rightarrow> real \<Rightarrow> string list \<Rightarrow> (string \<rightharpoonup> device_state) \<Rightarrow> nat
     \<Rightarrow> (string \<rightharpoonup> device_state) \<times> nat" where
  "adjust_devices tolerance rate reference_drift [] devs n = (devs, n)"
| "adjust_devices tolerance rate reference_drift (i # ids) devs n =
     (case devs i of
        None \<Rightarrow> adjust_devices tolerance rate reference_drift ids devs n
      | Some device \<Rightarrow>
          (case adjust_device tolerance rate reference_drift device of
             (device', adjusted) \<Rightarrow>
               adjust_devices tolerance rate reference_drift ids (devs(i \<mapsto> device'))
                 (if adjusted then Suc n else n)))"

text \<open>
  The list \<open>[self.devices[device_id].avg_drift_ms for device_id in stable_devices]\<close>;
  the subscript raises \<open>KeyError\<close> on an unknown id.
\<close>

fun avg_drifts :: "(string \<rightharpoonup> device_state) \<Rightarrow> string list \<Rightarrow> error + real list" where
  "avg_drifts devs [] = Inr []"
| "avg_drifts devs (i # ids) =
     (case devs i of
        None \<Rightarrow> Inl KeyError
      | Some d \<Rightarrow> (case avg_drifts devs ids of
                    Inl e \<Rightarrow> Inl e
                  | Inr xs \<Rightarrow> Inr (avg_drift_ms d # xs)))"

text \<open>The reference drift of a group: the median of the average drifts of its stable devices.\<close>

definition reference_drift :: "sync_controller \<Rightarrow> string list \<Rightarrow> error + real" where
  "reference_drift c device_ids =
     (case avg_drifts (devices c) (stable_devices c device_ids) of
        Inl e \<Rightarrow> Inl e
      | Inr drifts \<Rightarrow> statistics_median drifts)"

text \<open>\<open>SyncController._sync_group(group_name, device_ids)\<close>.\<close>

definition sync_group :: "sync_controller \<Rightarrow> string \<Rightarrow> string list \<Rightarrow> error + sync_controller" where
  "sync_group c group_name device_ids =
     (if length (stable_devices c device_ids) < 2 then Inr c
      else case reference_drift c device_ids of
             Inl e \<Rightarrow> Inl e
           | Inr r \<Rightarrow>
               (case adjust_devices (sync_tolerance_ms c) (adjustment_rate c) r
                       device_ids (devices c) 0 of
                  (devs, adjustments_made) \<Rightarrow>
                    Inr (c\<lparr> devices := devs,
                            sync_events := (if adjustments_made > 0 then sync_events c + 1
                                            else sync_events c) \<rparr>)))"

text \<open>The loop \<open>for group_name, device_ids in self.sync_groups.items()\<close>.\<close>

fun sync_all_groups :: "sync_controller \<Rightarrow> (string \<times> string list) list \<Rightarrow> error + sync_controller" where
  "sync_all_groups c [] = Inr c"
| "sync_all_groups c ((group_name, device_ids) # rest) =
     (case sync_group c group_name device_ids of
        Inl e \<Rightarrow> Inl e
      | Inr c' \<Rightarrow> sync_all_groups c' rest)"

text \<open>\<open>SyncController._check_synchronization()\<close>, reading the clock as \<open>current_time\<close>.\<close>

definition check_synchronization :: "sync_controller \<Rightarrow> real \<Rightarrow> error + sync_controller" where
  "check_synchronization c current_time =
     (if current_time - last_sync_time c < 1 then Inr c
      else case sync_all_groups c (sync_groups c) of
             Inl e \<Rightarrow> Inl e
           | Inr c' \<Rightarrow> Inr (c'\<lparr> last_sync_time := current_time \<rparr>))"

text \<open>
  \<open>SyncController.update_device_drift(device_id, drift_ms, signal_strength)\<close>. The clock is
  read twice, by \<open>update_drift\<close> (\<open>update_time\<close>) and by \<open>_check_synchronization\<close>
  (\<open>check_time\<close>).
\<close>

definition update_device_drift ::
  "sync_controller \<Rightarrow> string \<Rightarrow> real \<Rightarrow> real \<Rightarrow> real \<Rightarrow> real \<Rightarrow> error + sync_controller" where
  "update_device_drift c did drift signal_strength update_time check_time =
     (case devices c did of
        None \<Rightarrow> Inr c
      | Some d \<Rightarrow>
          (case update_drift d drift signal_strength update_time of
             Inl e \<Rightarrow> Inl e
           | Inr d' \<Rightarrow> check_synchronization (c\<lparr> devices := (devices c)(did \<mapsto> d') \<rparr>) check_time))"

text \<open>
  \<open>SyncController.force_resync(group_name)\<close>: one named group when the name is given,
  non-empty and known, all groups otherwise.
\<close>

definition force_resync :: "sync_controller \<Rightarrow> string option \<Rightarrow> real \<Rightarrow> error + sync_controller" where
  "force_resync c group_name current_time =
     (case (case group_name of
              Some g \<Rightarrow> (if g \<noteq> [] then
                            (case dict_get (sync_groups c) g of
                               Some ids \<Rightarrow> sync_group c g ids
                             | None \<Rightarrow> sync_all_groups c (sync_groups c))
                          else sync_all_groups c (sync_groups c))
            | None \<Rightarrow> sync_all_groups c (sync_groups c)) of
        Inl e \<Rightarrow> Inl e
      | Inr c' \<Rightarrow> Inr (c'\<lparr> last_sync_time := current_time \<rparr>))"

text \<open>\<open>SyncController.get_device_offset(device_id)\<close>.\<close>

definition get_device_offset :: "sync_controller \<Rightarrow> string \<Rightarrow> real" where
  "get_device_offset c did = (case devices c did of Some d \<Rightarrow> current_offset_ms d | None \<Rightarrow> 0)"

section \<open>DriftDetector (src/drift\_detector.py)\<close>









section \<open>Scenarios\<close>

text \<open>A result that was returned, \<open>None\<close> when the call raised.\<close>

definition returned :: "error + 'a \<Rightarrow> 'a option" where
  "returned r = (case r of Inl e \<Rightarrow> None | Inr x \<Rightarrow> Some x)"

text \<open>
  A sequence of drift reports of one device through \<open>update_device_drift\<close> with the default
  signal strength -50; a report is the drift and the two clock readings of the call.
\<close>

fun report_drifts ::
  "sync_controller \<Rightarrow> string \<Rightarrow> (real \<times> real \<times> real) list \<Rightarrow> error + sync_controller" where
  "report_drifts c did [] = Inr c"
| "report_drifts c did ((drift, update_time, check_time) # reports) =
     (case update_device_drift c did drift (-50) update_time check_time of
        Inl e \<Rightarrow> Inl e
      | Inr c' \<Rightarrow> report_drifts c' did reports)"

text \<open>
  The controller of the two-device scenario: tolerance 10, rate 0.1, devices \<open>A\<close> (base
  latency 50) and \<open>B\<close> (base latency 100) registered in group \<open>G\<close>.
\<close>

definition two_device_group :: sync_controller where
  "two_device_group =
     register_device
       (register_device (SyncController 10 (1/10)) ''A''
          \<lparr> conf_base_latency_ms = Some 50, conf_type = None, conf_sync_group = Some ''G'' \<rparr>)
       ''B'' \<lparr> conf_base_latency_ms = Some 100, conf_type = None, conf_sync_group = Some ''G'' \<rparr>"

text \<open>The same reports applied to the device alone, by \<open>update_drift\<close>.\<close>

fun device_reports :: "device_state \<Rightarrow> (real \<times> real \<times> real) list \<Rightarrow> error + device_state" where
  "device_reports d [] = Inr d"
| "device_reports d ((drift, update_time, check_time) # reports) =
     (case update_drift d drift (-50) update_time of
        Inl e \<Rightarrow> Inl e
      | Inr d' \<Rightarrow> device_reports d' reports)"

text \<open>
  The controller of the scenario with given states of \<open>A\<close> and \<open>B\<close>, a given count of sync
  events and a given time of the last sync.
\<close>

definition two_devices :: "device_state \<Rightarrow> device_state \<Rightarrow> nat \<Rightarrow> real \<Rightarrow> sync_controller" where
  "two_devices dA dB events synced =
     two_device_group \<lparr> devices := [''A'' \<mapsto> dA, ''B'' \<mapsto> dB], sync_events := events,
                        last_sync_time := synced \<rparr>"

text \<open>
  Device \<open>A\<close> after its five reports 10, 12, 11, 10, 12 at the clock readings \<open>a1\<close> to
  \<open>a5\<close>, with given current and target offsets; likewise \<open>B\<close> after -8, -10, -9, -10, -8.
\<close>

definition device_A_reported :: "real \<Rightarrow> real \<Rightarrow> real \<Rightarrow> real \<Rightarrow> real \<Rightarrow> real \<Rightarrow> real \<Rightarrow> device_state" where
  "device_A_reported a1 a2 a3 a4 a5 current target =
     \<lparr> device_id = ''A'', base_latency_ms = 50,
       drift_history = [\<lparr> e_drift_ms = 10, e_timestamp = a1, e_signal_strength = -50 \<rparr>,
                        \<lparr> e_drift_ms = 12, e_timestamp = a2, e_signal_strength = -50 \<rparr>,
                        \<lparr> e_drift_ms = 11, e_timestamp = a3, e_signal_strength = -50 \<rparr>,
                        \<lparr> e_drift_ms = 10, e_timestamp = a4, e_signal_strength = -50 \<rparr>,
                        \<lparr> e_drift_ms = 12, e_timestamp = a5, e_signal_strength = -50 \<rparr>],
       last_drift_ms = 12, last_drift_time = a5, current_offset_ms = current,
       target_offset_ms = target, drift_variance = 1, avg_drift_ms = 11,
       connection_quality = 199/200, is_online = True, last_seen = a5 \<rparr>"

definition device_B_reported :: "real \<Rightarrow> real \<Rightarrow> real \<Rightarrow> real \<Rightarrow> real \<Rightarrow> real \<Rightarrow> real \<Rightarrow> device_state" where
  "device_B_reported a1 a2 a3 a4 a5 current target =
     \<lparr> device_id = ''B'', base_latency_ms = 100,
       drift_history = [\<lparr> e_drift_ms = -8, e_timestamp = a1, e_signal_strength = -50 \<rparr>,
                        \<lparr> e_drift_ms = -10, e_timestamp = a2, e_signal_strength = -50 \<rparr>,
                        \<lparr> e_drift_ms = -9, e_timestamp = a3, e_signal_strength = -50 \<rparr>,
                        \<lparr> e_drift_ms = -10, e_timestamp = a4, e_signal_strength = -50 \<rparr>,
                        \<lparr> e_drift_ms = -8, e_timestamp = a5, e_signal_strength = -50 \<rparr>],
       last_drift_ms = -8, last_drift_time = a5, current_offset_ms = current,
       target_offset_ms = target, drift_variance = 1, avg_drift_ms = -9,
       connection_quality = 199/200, is_online = True, last_seen = a5 \<rparr>"

text \<open>
  The scenario with every report at clock reading 1: the state after the ten reports, and the
  state after the first pass of the group at clock reading 2.
\<close>

definition two_device_ready :: sync_controller where
  "two_device_ready =
     two_devices (device_A_reported 1 1 1 1 1 0 0) (device_B_reported 1 1 1 1 1 0 0) 0 1"

definition two_device_synced :: sync_controller where
  "two_device_synced =
     two_devices (device_A_reported 1 1 1 1 1 4 40) (device_B_reported 1 1 1 1 1 11 110) 1 2"






section \<open>DeviceState and SyncController, configurable revision (src/src/sync\_controller.py)\<close>

text \<open>
  The revision passes the tunables of \<open>DeviceState\<close> as constructor parameters. The record
  extends \<open>device_state\<close> by them; the other fields are those of the first revision.
\<close>

record cfg_device_state = device_state +
  drift_history_maxlen :: int
  recent_drifts_window :: int
  online_timeout_seconds :: real
  stability_max_variance :: real
  stability_min_measurements :: int
  stability_min_connection_quality :: real

text \<open>The parameters stored by the controller as \<open>device_state_config\<close>.\<close>

record device_state_config =
  dev_drift_history_maxlen :: int
  dev_recent_drifts_window :: int
  dev_online_timeout_seconds :: real
  dev_stability_max_variance :: real
  dev_stability_min_measurements :: int
  dev_stability_min_connection_quality :: real

text \<open>The class defaults \<open>DEFAULT_DRIFT_HISTORY_MAXLEN\<close> and the following.\<close>

definition default_device_state_config :: device_state_config where
  "default_device_state_config =
     \<lparr> dev_drift_history_maxlen = 50, dev_recent_drifts_window = 10,
       dev_online_timeout_seconds = 30, dev_stability_max_variance = 25,
       dev_stability_min_measurements = 5, dev_stability_min_connection_quality = 1/2 \<rparr>"

text \<open>
  \<open>DeviceState.__init__\<close> of the revision; \<open>deque(maxlen=n)\<close> raises \<open>ValueError\<close> for a
  negative \<open>n\<close>.
\<close>

definition cfg_DeviceState :: "string \<Rightarrow> real \<Rightarrow> device_state_config \<Rightarrow> error + cfg_device_state" where
  "cfg_DeviceState did base_latency conf =
     (if dev_drift_history_maxlen conf < 0 then Inl ValueError
      else Inr \<lparr> device_id = did, base_latency_ms = base_latency, drift_history = [],
                 last_drift_ms = 0, last_drift_time = 0, current_offset_ms = 0,
                 target_offset_ms = 0, drift_variance = 0, avg_drift_ms = 0,
                 connection_quality = 1, is_online = False, last_seen = 0,
                 drift_history_maxlen = dev_drift_history_maxlen conf,
                 recent_drifts_window = dev_recent_drifts_window conf,
                 online_timeout_seconds = dev_online_timeout_seconds conf,
                 stability_max_variance = dev_stability_max_variance conf,
                 stability_min_measurements = dev_stability_min_measurements conf,
                 stability_min_connection_quality = dev_stability_min_connection_quality conf \<rparr>)"

text \<open>
  The slice \<open>xs[-w:]\<close> for an integer variable \<open>w\<close>: the last \<open>w\<close> elements for a positive
  \<open>w\<close>, the whole list for 0 (\<open>xs[-0:]\<close> is \<open>xs[0:]\<close>), the list without its first
  \<open>-w\<close> elements for a negative \<open>w\<close>.
\<close>

definition slice_from_neg :: "int \<Rightarrow> 'a list \<Rightarrow> 'a list" where
  "slice_from_neg w xs =
     (if w > 0 then drop (length xs - nat w) xs
      else if w = 0 then xs
      else drop (nat (- w)) xs)"

text \<open>
  The objects that reach the \<open>statistics\<close> functions: a number, or an entry of the drift
  history (a dict).
\<close>

datatype pyobj = PyNumber real | PyDict drift_entry

fun is_number :: "pyobj \<Rightarrow> bool" where
  "is_number (PyNumber x) = True"
| "is_number (PyDict e) = False"

fun number_of :: "pyobj \<Rightarrow> real" where
  "number_of (PyNumber x) = x"
| "number_of (PyDict e) = 0"

text \<open>
  \<open>statistics.mean\<close> and \<open>statistics.variance\<close> on a list of arbitrary objects: an element
  that is not a number cannot be converted to a ratio, and the function raises
  \<open>TypeError\<close>; on numbers they are \<open>statistics_mean\<close> and \<open>statistics_variance\<close>.
\<close>

definition statistics_mean_objects :: "pyobj list \<Rightarrow> error + real" where
  "statistics_mean_objects xs =
     (if xs = [] then Inl StatisticsError
      else if \<not> list_all is_number xs then Inl TypeError
      else statistics_mean (map number_of xs))"

definition statistics_variance_objects :: "pyobj list \<Rightarrow> error + real" where
  "statistics_variance_objects xs =
     (if length xs < 2 then Inl StatisticsError
      else if \<not> list_all is_number xs then Inl TypeError
      else statistics_variance (map number_of xs))"

text \<open>
  \<open>DeviceState.update_drift\<close> of the revision. The slice holds the entries of the history
  themselves, the dicts, and is handed to \<open>statistics.mean\<close> as it is. The result is the
  exception raised, if any, and the device as the call leaves it: the fields assigned
  before a raise keep their new values.
\<close>

definition cfg_update_drift ::
  "cfg_device_state \<Rightarrow> real \<Rightarrow> real \<Rightarrow> real \<Rightarrow> error option \<times> cfg_device_state" where
  "cfg_update_drift d drift signal_strength current_time =
     (let d1 = d\<lparr> drift_history := deque_append (nat (drift_history_maxlen d)) (drift_history d)
                       \<lparr> e_drift_ms = drift, e_timestamp = current_time,
                         e_signal_strength = signal_strength \<rparr>,
                   last_drift_ms := drift, last_drift_time := current_time,
                   is_online := True, last_seen := current_time \<rparr>
      in if length (drift_history d1) \<ge> 3 then
           (let recent_drifts_slice =
                  map PyDict (slice_from_neg (recent_drifts_window d1) (drift_history d1))
            in case statistics_mean_objects recent_drifts_slice of
                 Inl e \<Rightarrow> (Some e, d1)
               | Inr avg \<Rightarrow>
                  (let d2 = d1\<lparr> avg_drift_ms := avg \<rparr>
                   in case (if length recent_drifts_slice > 1
                            then statistics_variance_objects recent_drifts_slice else Inr 0) of
                        Inl e \<Rightarrow> (Some e, d2)
                      | Inr var \<Rightarrow>
                         (let signal_quality = max 0 (min 1 ((signal_strength + 80) / 30));
                              drift_stability = max 0 (min 1 (1 - var / 100))
                          in (None, d2\<lparr> drift_variance := var,
                                       connection_quality :=
                                         (signal_quality + drift_stability) / 2 \<rparr>))))
         else (None, d1))"

text \<open>\<open>DeviceState.calculate_target_offset\<close> and \<open>DeviceState.is_stable\<close> of the revision.\<close>

definition cfg_calculate_target_offset :: "cfg_device_state \<Rightarrow> real \<Rightarrow> real" where
  "cfg_calculate_target_offset d reference =
     (if drift_history d = [] then base_latency_ms d
      else let smoothed_drift = (if length (drift_history d) \<ge> 3 then avg_drift_ms d
                                 else last_drift_ms d);
               compensation = reference - smoothed_drift
           in base_latency_ms d + compensation)"

definition cfg_is_stable_with :: "cfg_device_state \<Rightarrow> real option \<Rightarrow> bool" where
  "cfg_is_stable_with d max_variance \<longleftrightarrow>
     (let effective_max_variance =
            (case max_variance of Some v \<Rightarrow> v | None \<Rightarrow> stability_max_variance d)
      in int (length (drift_history d)) \<ge> stability_min_measurements d
         \<and> drift_variance d \<le> effective_max_variance
         \<and> connection_quality d \<ge> stability_min_connection_quality d)"

definition cfg_is_stable :: "cfg_device_state \<Rightarrow> bool" where
  "cfg_is_stable d \<longleftrightarrow> cfg_is_stable_with d None"

record cfg_sync_controller =
  cfg_sync_tolerance_ms :: real
  cfg_adjustment_rate :: real
  min_sync_interval_seconds :: real
  device_state_config :: device_state_config
  cfg_devices :: "string \<rightharpoonup> cfg_device_state"
  cfg_device_configs :: "string \<rightharpoonup> device_config"
  cfg_reference_device :: "string option"
  cfg_sync_groups :: "(string \<times> string list) list"
  cfg_sync_events :: nat
  cfg_last_sync_time :: real

text \<open>\<open>SyncController.__init__\<close> of the revision; the defaults are 10, 0.1, 1 and the class defaults.\<close>

definition cfg_SyncController :: "real \<Rightarrow> real \<Rightarrow> real \<Rightarrow> device_state_config \<Rightarrow> cfg_sync_controller" where
  "cfg_SyncController tolerance rate interval conf =
     \<lparr> cfg_sync_tolerance_ms = tolerance, cfg_adjustment_rate = rate,
       min_sync_interval_seconds = interval, device_state_config = conf,
       cfg_devices = Map.empty, cfg_device_configs = Map.empty, cfg_reference_device = None,
       cfg_sync_groups = [(''default'', [])], cfg_sync_events = 0, cfg_last_sync_time = 0 \<rparr>"

text \<open>\<open>SyncController.register_device\<close> of the revision.\<close>

definition cfg_register_device ::
  "cfg_sync_controller \<Rightarrow> string \<Rightarrow> device_config \<Rightarrow> error + cfg_sync_controller" where
  "cfg_register_device c did config =
     (let base_latency = (case conf_base_latency_ms config of None \<Rightarrow> 0 | Some b \<Rightarrow> b);
          group = (case conf_sync_group config of None \<Rightarrow> ''default'' | Some g \<Rightarrow> g)
      in case cfg_DeviceState did base_latency (device_state_config c) of
           Inl e \<Rightarrow> Inl e
         | Inr device \<Rightarrow>
            (let groups1 = (if dict_get (cfg_sync_groups c) group = None
                            then dict_set (cfg_sync_groups c) group []
                            else cfg_sync_groups c);
                 members = (case dict_get groups1 group of None \<Rightarrow> [] | Some m \<Rightarrow> m);
                 groups2 = (if did \<notin> set members
                            then dict_set groups1 group (members @ [did])
                            else groups1)
             in Inr (c\<lparr> cfg_devices := (cfg_devices c)(did \<mapsto> device),
                         cfg_device_configs := (cfg_device_configs c)(did \<mapsto> config),
                         cfg_sync_groups := groups2 \<rparr>)))"

text \<open>\<open>SyncController._sync_group\<close> of the revision, with its two loops.\<close>

definition cfg_stable_devices :: "cfg_sync_controller \<Rightarrow> string list \<Rightarrow> string list" where
  "cfg_stable_devices c device_ids =
     filter (\<lambda>i. case cfg_devices c i of None \<Rightarrow> False | Some d \<Rightarrow> is_online d \<and> cfg_is_stable d)
            device_ids"

fun cfg_avg_drifts :: "(string \<rightharpoonup> cfg_device_state) \<Rightarrow> string list \<Rightarrow> error + real list" where
  "cfg_avg_drifts devs [] = Inr []"
| "cfg_avg_drifts devs (i # ids) =
     (case devs i of
        None \<Rightarrow> Inl KeyError
      | Some d \<Rightarrow> (case cfg_avg_drifts devs ids of
                    Inl e \<Rightarrow> Inl e
                  | Inr xs \<Rightarrow> Inr (avg_drift_ms d # xs)))"

definition cfg_adjust_device ::
  "real \<Rightarrow> real \<Rightarrow> real \<Rightarrow> cfg_device_state \<Rightarrow> cfg_device_state \<times> bool" where
  "cfg_adjust_device tolerance rate reference device =
     (let new_target = cfg_calculate_target_offset device reference;
          offset_diff = \<bar>new_target - target_offset_ms device\<bar>
      in if offset_diff > tolerance
         then (let adjustment = (new_target - current_offset_ms device) * rate
               in (device\<lparr> current_offset_ms := current_offset_ms device + adjustment,
                            target_offset_ms := new_target \<rparr>, True))
         else (device, False))"

fun cfg_adjust_devices ::
  "real \<Rightarrow> real \<Rightarrow> real \<Rightarrow> string list \<Rightarrow> (string \<rightharpoonup> cfg_device_state) \<Rightarrow> nat
     \<Rightarrow> (string \<rightharpoonup> cfg_device_state) \<times> nat" where
  "cfg_adjust_devices tolerance rate reference [] devs n = (devs, n)"
| "cfg_adjust_devices tolerance rate reference (i # ids) devs n =
     (case devs i of
        None \<Rightarrow> cfg_adjust_devices tolerance rate reference ids devs n
      | Some device \<Rightarrow>
          (case cfg_adjust_device tolerance rate reference device of
             (device', adjusted) \<Rightarrow>
               cfg_adjust_devices tolerance rate reference ids (devs(i \<mapsto> device'))
                 (if adjusted then Suc n else n)))"

definition cfg_sync_group ::
  "cfg_sync_controller \<Rightarrow> string \<Rightarrow> string list \<Rightarrow> error + cfg_sync_controller" where
  "cfg_sync_group c group_name device_ids =
     (if length (cfg_stable_devices c device_ids) < 2 then Inr c
      else case cfg_avg_drifts (cfg_devices c) (cfg_stable_devices c device_ids) of
             Inl e \<Rightarrow> Inl e
           | Inr drifts \<Rightarrow>
              (case statistics_median drifts of
                 Inl e \<Rightarrow> Inl e
               | Inr r \<Rightarrow>
                  (case cfg_adjust_devices (cfg_sync_tolerance_ms c) (cfg_adjustment_rate c) r
                          device_ids (cfg_devices c) 0 of
                     (devs, adjustments_made) \<Rightarrow>
                       Inr (c\<lparr> cfg_devices := devs,
                               cfg_sync_events := (if adjustments_made > 0
                                                   then cfg_sync_events c + 1
                                                   else cfg_sync_events c) \<rparr>))))"

fun cfg_sync_all_groups ::
  "cfg_sync_controller \<Rightarrow> (string \<times> string list) list \<Rightarrow> error option \<times> cfg_sync_controller" where
  "cfg_sync_all_groups c [] = (None, c)"
| "cfg_sync_all_groups c ((group_name, device_ids) # rest) =
     (case cfg_sync_group c group_name device_ids of
        Inl e \<Rightarrow> (Some e, c)
      | Inr c' \<Rightarrow> cfg_sync_all_groups c' rest)"

text \<open>
  \<open>SyncController._check_synchronization\<close> and \<open>SyncController.update_device_drift\<close> of
  the revision. As for \<open>cfg_update_drift\<close> the result is the exception raised, if any, and
  the controller as the call leaves it.
\<close>

definition cfg_check_synchronization ::
  "cfg_sync_controller \<Rightarrow> real \<Rightarrow> error option \<times> cfg_sync_controller" where
  "cfg_check_synchronization c current_time =
     (if current_time - cfg_last_sync_time c < min_sync_interval_seconds c then (None, c)
      else case cfg_sync_all_groups c (cfg_sync_groups c) of
             (Some e, c') \<Rightarrow> (Some e, c')
           | (None, c') \<Rightarrow> (None, c'\<lparr> cfg_last_sync_time := current_time \<rparr>))"

definition cfg_update_device_drift ::
  "cfg_sync_controller \<Rightarrow> string \<Rightarrow> real \<Rightarrow> real \<Rightarrow> real \<Rightarrow> real
     \<Rightarrow> error option \<times> cfg_sync_controller" where
  "cfg_update_device_drift c did drift signal_strength update_time check_time =
     (case cfg_devices c did of
        None \<Rightarrow> (None, c)
      | Some d \<Rightarrow>
          (case cfg_update_drift d drift signal_strength update_time of
             (Some e, d') \<Rightarrow> (Some e, c\<lparr> cfg_devices := (cfg_devices c)(did \<mapsto> d') \<rparr>)
           | (None, d') \<Rightarrow>
               cfg_check_synchronization (c\<lparr> cfg_devices := (cfg_devices c)(did \<mapsto> d') \<rparr>)
                 check_time))"

text \<open>
  A sequence of drift reports of one device through \<open>update_device_drift\<close> of the revision,
  up to the first call that raises; a report is the drift, the signal strength and the two
  clock readings of the call.
\<close>

fun cfg_report_drifts ::
  "cfg_sync_controller \<Rightarrow> string \<Rightarrow> (real \<times> real \<times> real \<times> real) list
     \<Rightarrow> error option \<times> cfg_sync_controller" where
  "cfg_report_drifts c did [] = (None, c)"
| "cfg_report_drifts c did ((drift, signal_strength, update_time, check_time) # reports) =
     (case cfg_update_device_drift c did drift signal_strength update_time check_time of
        (Some e, c') \<Rightarrow> (Some e, c')
      | (None, c') \<Rightarrow> cfg_report_drifts c' did reports)"

text \<open>
  A controller of the revision with all defaults and one device \<open>A\<close> registered with an empty
  configuration.
\<close>

definition cfg_one_device :: "error + cfg_sync_controller" where
  "cfg_one_device =
     cfg_register_device (cfg_SyncController 10 (1/10) 1 default_device_state_config) ''A''
       \<lparr> conf_base_latency_ms = None, conf_type = None, conf_sync_group = None \<rparr>"

text \<open>The exception of a sequence of reports to a controller that was itself returned.\<close>

definition raised_by_reports ::
  "error + cfg_sync_controller \<Rightarrow> string \<Rightarrow> (real \<times> real \<times> real \<times> real) list \<Rightarrow> error option" where
  "raised_by_reports r did reports =
     (case r of Inl e \<Rightarrow> Some e | Inr c \<Rightarrow> fst (cfg_report_drifts c did reports))"

section \<open>AudioBuffer (src/audio\_buffer.py)\<close>

text \<open>
  A frame is the row of one sample instant, one real per channel. The arrays handed to
  \<open>write\<close> are one-dimensional (samples) or two-dimensional (rows of a common width, the
  number of columns is kept beside the rows because an array without rows still has one).
  Arrays of other ranks are outside the model.
\<close>

type_synonym frame = "real list"

datatype ndarray = Array1 "real list" | Array2 nat "frame list"

record audio_buffer =
  sample_rate :: int
  buffer_duration :: real
  channels :: nat
  buffer_size :: int
  buffer :: "frame list"
  write_index :: int
  samples_written :: int
  start_time :: real
  last_write_time :: real

text \<open>Python's \<open>int(x)\<close> on a float: truncation towards zero.\<close>

definition py_int :: "real \<Rightarrow> int" where
  "py_int x = (if x \<ge> 0 then \<lfloor>x\<rfloor> else \<lceil>x\<rceil>)"

text \<open>
  \<open>AudioBuffer.__init__(sample_rate, buffer_duration, channels)\<close> at clock reading
  \<open>current_time\<close>; \<open>np.zeros\<close> raises \<open>ValueError\<close> for a negative dimension.
\<close>

definition AudioBuffer :: "int \<Rightarrow> real \<Rightarrow> nat \<Rightarrow> real \<Rightarrow> error + audio_buffer" where
  "AudioBuffer rate duration chans current_time =
     (let size = py_int (real_of_int rate * duration)
      in if size < 0 then Inl ValueError
         else Inr \<lparr> sample_rate = rate, buffer_duration = duration, channels = chans,
                    buffer_size = size, buffer = replicate (nat size) (replicate chans 0),
                    write_index = 0, samples_written = 0, start_time = current_time,
                    last_write_time = current_time \<rparr>)"

text \<open>
  The shape adjustments at the start of \<open>write\<close>: a one-dimensional array becomes one
  column; one column is duplicated for a stereo buffer, two columns are averaged for a mono
  buffer; any other width is kept. The result is the width and the rows.
\<close>

definition adjust_shape :: "nat \<Rightarrow> ndarray \<Rightarrow> nat \<times> frame list" where
  "adjust_shape chans a =
     (case (case a of Array1 xs \<Rightarrow> (1, map (\<lambda>x. [x]) xs) | Array2 cols rows \<Rightarrow> (cols, rows)) of
        (cols, rows) \<Rightarrow>
          if cols \<noteq> chans then
            (if chans = 2 \<and> cols = 1 then (2, map (\<lambda>r. concat (map (\<lambda>x. [x, x]) r)) rows)
             else if chans = 1 \<and> cols = 2 then (1, map (\<lambda>r. [sum_list r / 2]) rows)
             else (cols, rows))
          else (cols, rows))"

text \<open>
  The loop of \<open>write\<close>. The assignment \<open>self.buffer[self.write_index] = audio_data[i]\<close>
  raises \<open>IndexError\<close> when the buffer has no rows and \<open>ValueError\<close> when a row of width
  \<open>cols\<close> can neither be stored as it is nor be broadcast (width 1) into a buffer row.
\<close>

fun write_rows :: "audio_buffer \<Rightarrow> nat \<Rightarrow> frame list \<Rightarrow> error + audio_buffer" where
  "write_rows b cols [] = Inr b"
| "write_rows b cols (r # rows) =
     (if buffer_size b = 0 then Inl IndexError
      else if cols \<noteq> channels b \<and> cols \<noteq> 1 then Inl ValueError
      else write_rows
             (b\<lparr> buffer := (buffer b)[nat (write_index b) :=
                               (if cols = channels b then r else replicate (channels b) (hd r))],
                 write_index := (write_index b + 1) mod buffer_size b,
                 samples_written := samples_written b + 1 \<rparr>)
             cols rows)"

text \<open>
  \<open>AudioBuffer.write(audio_data)\<close> at clock reading \<open>current_time\<close> (\<open>write\<close> is a
  reserved word of the prover).
\<close>

definition write_buffer :: "audio_buffer \<Rightarrow> ndarray \<Rightarrow> real \<Rightarrow> error + audio_buffer" where
  "write_buffer b audio_data current_time =
     (case adjust_shape (channels b) audio_data of
        (cols, rows) \<Rightarrow>
          (case write_rows b cols rows of
             Inl e \<Rightarrow> Inl e
           | Inr b' \<Rightarrow> Inr (b'\<lparr> last_write_time := current_time \<rparr>)))"

text \<open>
  \<open>AudioBuffer.read(duration, offset)\<close>: the start position is computed from the requested
  number of samples, then the number is clamped to what is available, then that many rows
  are copied from the start position on. The modulus raises \<open>ZeroDivisionError\<close> for an
  empty buffer, \<open>np.zeros\<close> raises \<open>ValueError\<close> for a negative number of samples.
\<close>

definition read :: "audio_buffer \<Rightarrow> real \<Rightarrow> real \<Rightarrow> error + (frame list \<times> real)" where
  "read b duration offset =
     (let num_samples = py_int (duration * real_of_int (sample_rate b));
          offset_samples = py_int (offset * real_of_int (sample_rate b));
          current_pos = write_index b
      in if buffer_size b = 0 then Inl ZeroDivisionError
         else
           let start_pos = (current_pos - num_samples + offset_samples) mod buffer_size b;
               available_samples = min (samples_written b) (buffer_size b);
               num_samples' = (if num_samples > available_samples then available_samples
                               else num_samples)
           in if num_samples' < 0 then Inl ValueError
              else
                let audio_data = map (\<lambda>i. buffer b ! nat ((start_pos + int i) mod buffer_size b))
                                     [0 ..< nat num_samples'];
                    samples_from_start = samples_written b - num_samples' + offset_samples
                in if sample_rate b = 0 then Inl ZeroDivisionError
                   else Inr (audio_data,
                             real_of_int samples_from_start / real_of_int (sample_rate b)))"

text \<open>\<open>AudioBuffer.get_latest(duration)\<close>.\<close>

definition get_latest :: "audio_buffer \<Rightarrow> real \<Rightarrow> error + (frame list \<times> real)" where
  "get_latest b duration = read b duration 0"

text \<open>
  The frames that a sequence of successful writes has stored, oldest first, and the window
  of the most recent \<open>n\<close> of them.
\<close>

definition stored_rows :: "nat \<Rightarrow> ndarray \<Rightarrow> frame list" where
  "stored_rows chans a =
     (case adjust_shape chans a of
        (cols, rows) \<Rightarrow> if cols = chans then rows else map (\<lambda>r. replicate chans (hd r)) rows)"

text \<open>
  A mono buffer of 8 frames at 4 Hz, after one write of the three samples 1, 2, 3.
\<close>

definition small_buffer :: "error + audio_buffer" where
  "small_buffer =
     (case AudioBuffer 4 2 1 0 of
        Inl e \<Rightarrow> Inl e
      | Inr b \<Rightarrow> write_buffer b (Array1 [1, 2, 3]) 1)"

definition read_from :: "error + audio_buffer \<Rightarrow> real \<Rightarrow> real \<Rightarrow> error + (frame list \<times> real)" where
  "read_from r duration offset = (case r of Inl e \<Rightarrow> Inl e | Inr b \<Rightarrow> read b duration offset)"

text \<open>
  A device whose history holds the given drifts, all reported with the given signal strength
  at clock reading 1, with given statistics; its offsets are 0.
\<close>

definition device_with :: "real list \<Rightarrow> real \<Rightarrow> real \<Rightarrow> real \<Rightarrow> real \<Rightarrow> device_state" where
  "device_with drifts signal avg var quality =
     \<lparr> device_id = ''A'', base_latency_ms = 0,
       drift_history = map (\<lambda>x. \<lparr> e_drift_ms = x, e_timestamp = 1, e_signal_strength = signal \<rparr>)
                           drifts,
       last_drift_ms = last drifts, last_drift_time = 1, current_offset_ms = 0,
       target_offset_ms = 0, drift_variance = var, avg_drift_ms = avg,
       connection_quality = quality, is_online = True, last_seen = 1 \<rparr>"

section \<open>Protocol (src/src/protocol.py)\<close>

text \<open>
  The fields of the message dataclasses are not type-checked at run time, so a field holds
  any Python value. The values that occur are \<open>None\<close>, booleans, integers, floats, strings,
  lists, tuples, dicts with string keys, and other objects, of which only \<open>str(obj)\<close>
  matters here. Dicts keep their insertion order; a dict whose keys are not strings is
  outside the model.
\<close>

datatype pyval =
    PNone
  | PBool bool
  | PInt int
  | PFloat real
  | PStr string
  | PList "pyval list"
  | PTuple "pyval list"
  | PDict "(string \<times> pyval) list"
  | PObject string

text \<open>
  A JSON value. \<open>json.dumps\<close> and \<open>json.loads\<close> are modelled on JSON values: the text
  between them is the library's encoding of the value, and a string handed to
  \<open>json.loads\<close> is the text of a JSON value or is malformed.
\<close>

datatype json =
    JNull
  | JBool bool
  | JInt int
  | JReal real
  | JString string
  | JArray "json list"
  | JObject "(string \<times> json) list"

datatype json_text = Malformed | Text json

text \<open>
  \<open>json.dumps(data, default=str)\<close>: lists and tuples become arrays, dicts become objects,
  and an object the encoder does not know is replaced by \<open>str(obj)\<close>.
\<close>

primrec json_dumps :: "pyval \<Rightarrow> json" where
  "json_dumps PNone = JNull"
| "json_dumps (PBool b) = JBool b"
| "json_dumps (PInt i) = JInt i"
| "json_dumps (PFloat r) = JReal r"
| "json_dumps (PStr s) = JString s"
| "json_dumps (PList xs) = JArray (map json_dumps xs)"
| "json_dumps (PTuple xs) = JArray (map json_dumps xs)"
| "json_dumps (PDict kvs) = JObject (map (map_prod id json_dumps) kvs)"
| "json_dumps (PObject s) = JString s"

text \<open>
  \<open>json.loads\<close> on the text of a JSON value: arrays become lists, objects become dicts
  built pair by pair, so that of two equal names the later value wins.
\<close>

primrec json_loads :: "json \<Rightarrow> pyval" where
  "json_loads JNull = PNone"
| "json_loads (JBool b) = PBool b"
| "json_loads (JInt i) = PInt i"
| "json_loads (JReal r) = PFloat r"
| "json_loads (JString s) = PStr s"
| "json_loads (JArray xs) = PList (map json_loads xs)"
| "json_loads (JObject kvs) =
     PDict (foldl (\<lambda>d (k, v). dict_set d k v) [] (map (map_prod id json_loads) kvs))"

text \<open>
  The values JSON represents without loss: no tuple and no foreign object at any depth, and
  dicts with distinct keys.
\<close>

primrec json_native :: "pyval \<Rightarrow> bool" where
  "json_native PNone = True"
| "json_native (PBool b) = True"
| "json_native (PInt i) = True"
| "json_native (PFloat r) = True"
| "json_native (PStr s) = True"
| "json_native (PList xs) = list_all json_native xs"
| "json_native (PTuple xs) = False"
| "json_native (PDict kvs) =
     (distinct (map fst kvs) \<and> list_all snd (map (map_prod id json_native) kvs))"
| "json_native (PObject s) = False"

text \<open>The decimal numeral of an integer, as \<open>str(n)\<close> and the f-string print it.\<close>

definition digit_char :: "nat \<Rightarrow> char" where
  "digit_char n = ''0123456789'' ! n"

fun string_of_nat :: "nat \<Rightarrow> string" where
  "string_of_nat n =
     (if n < 10 then [digit_char n]
      else string_of_nat (n div 10) @ [digit_char (n mod 10)])"

definition string_of_int :: "int \<Rightarrow> string" where
  "string_of_int i = (if i < 0 then CHR ''-'' # string_of_nat (nat (- i)) else string_of_nat (nat i))"

text \<open>
  Keyword arguments against the fields of a dataclass, in the order of declaration: a field
  is required or has a default. The generated \<open>__init__\<close> raises \<open>TypeError\<close> when the
  argument after \<open>**\<close> is not a mapping, when a keyword names no field and when a required
  field is missing; otherwise every field gets its argument or its default.
\<close>

datatype field_default = Required | Default pyval

definition bind_fields :: "(string \<times> field_default) list \<Rightarrow> pyval \<Rightarrow> error + pyval list" where
  "bind_fields spec data =
     (case data of
        PDict kwargs \<Rightarrow>
          if \<not> list_all (\<lambda>k. k \<in> set (map fst spec)) (map fst kwargs) then Inl TypeError
          else if \<not> list_all (\<lambda>(name, dflt). dflt \<noteq> Required \<or> name \<in> set (map fst kwargs)) spec
          then Inl TypeError
          else Inr (map (\<lambda>(name, dflt).
                      case map_of kwargs name of
                        Some v \<Rightarrow> v
                      | None \<Rightarrow> (case dflt of Default v \<Rightarrow> v | Required \<Rightarrow> PNone)) spec)
      | _ \<Rightarrow> Inl TypeError)"

text \<open>The default \<open>time.time()\<close> of a timestamp field left \<open>None\<close>, as \<open>__post_init__\<close> sets it.\<close>

definition default_time :: "pyval \<Rightarrow> real \<Rightarrow> pyval" where
  "default_time v current_time = (if v = PNone then PFloat current_time else v)"

subsection \<open>The message dataclasses\<close>

record drift_report_message =
  dr_device_id :: pyval
  dr_drift_ms :: pyval
  dr_correlation :: pyval
  dr_signal_strength :: pyval
  dr_measurement_time :: pyval
  dr_measurement_count :: pyval
  dr_avg_drift_ms :: pyval
  dr_drift_variance :: pyval

record buffer_offset_message =
  bo_device_id :: pyval
  bo_offset_ms :: pyval
  bo_timestamp :: pyval
  bo_sync_group :: pyval

record device_register_message =
  reg_device_id :: pyval
  reg_device_name :: pyval
  reg_device_type :: pyval
  reg_location :: pyval
  reg_base_latency_ms :: pyval
  reg_sync_group :: pyval
  reg_capabilities :: pyval
  reg_version :: pyval
  reg_ip_address :: pyval

record device_status_message =
  st_device_id :: pyval
  st_is_online :: pyval
  st_is_playing :: pyval
  st_is_muted :: pyval
  st_volume :: pyval
  st_current_offset_ms :: pyval
  st_cpu_usage :: pyval
  st_memory_usage :: pyval
  st_temperature :: pyval
  st_uptime :: pyval
  st_last_drift_ms :: pyval
  st_correlation_quality :: pyval
  st_timestamp :: pyval

record heartbeat_message =
  hb_device_id :: pyval
  hb_timestamp :: pyval
  hb_sequence :: pyval

record config_update_message =
  cu_device_id :: pyval
  cu_config :: pyval
  cu_config_version :: pyval
  cu_timestamp :: pyval

record command_message =
  cmd_device_id :: pyval
  cmd_command :: pyval
  cmd_params :: pyval
  cmd_command_id :: pyval
  cmd_timestamp :: pyval

record sync_status_message =
  ss_sync_groups :: pyval
  ss_device_count :: pyval
  ss_online_devices :: pyval
  ss_sync_events :: pyval
  ss_last_sync_time :: pyval
  ss_avg_drift_ms :: pyval
  ss_max_drift_ms :: pyval
  ss_timestamp :: pyval

datatype message =
    DriftReport drift_report_message
  | BufferOffset buffer_offset_message
  | DeviceRegister device_register_message
  | DeviceStatus device_status_message
  | Heartbeat heartbeat_message
  | ConfigUpdate config_update_message
  | Command command_message
  | SyncStatus sync_status_message

datatype message_type =
    DRIFT_REPORT | BUFFER_OFFSET | DEVICE_REGISTER | DEVICE_STATUS | HEARTBEAT
  | CONFIG_UPDATE | COMMAND | SYNC_STATUS | AUDIO_STREAM

text \<open>The message type under which \<open>deserialize_message\<close> finds the class of a message.\<close>

fun type_of_message :: "message \<Rightarrow> message_type" where
  "type_of_message (DriftReport m) = DRIFT_REPORT"
| "type_of_message (BufferOffset m) = BUFFER_OFFSET"
| "type_of_message (DeviceRegister m) = DEVICE_REGISTER"
| "type_of_message (DeviceStatus m) = DEVICE_STATUS"
| "type_of_message (Heartbeat m) = HEARTBEAT"
| "type_of_message (ConfigUpdate m) = CONFIG_UPDATE"
| "type_of_message (Command m) = COMMAND"
| "type_of_message (SyncStatus m) = SYNC_STATUS"

text \<open>
  \<open>dataclasses.asdict\<close>: the dict of the fields in the order of declaration. It copies
  lists, tuples and dicts recursively, which on values is the identity.
\<close>

fun asdict :: "message \<Rightarrow> pyval" where
  "asdict (DriftReport m) =
     PDict [(''device_id'', dr_device_id m), (''drift_ms'', dr_drift_ms m),
            (''correlation'', dr_correlation m), (''signal_strength'', dr_signal_strength m),
            (''measurement_time'', dr_measurement_time m),
            (''measurement_count'', dr_measurement_count m),
            (''avg_drift_ms'', dr_avg_drift_ms m), (''drift_variance'', dr_drift_variance m)]"
| "asdict (BufferOffset m) =
     PDict [(''device_id'', bo_device_id m), (''offset_ms'', bo_offset_ms m),
            (''timestamp'', bo_timestamp m), (''sync_group'', bo_sync_group m)]"
| "asdict (DeviceRegister m) =
     PDict [(''device_id'', reg_device_id m), (''device_name'', reg_device_name m),
            (''device_type'', reg_device_type m), (''location'', reg_location m),
            (''base_latency_ms'', reg_base_latency_ms m), (''sync_group'', reg_sync_group m),
            (''capabilities'', reg_capabilities m), (''version'', reg_version m),
            (''ip_address'', reg_ip_address m)]"
| "asdict (DeviceStatus m) =
     PDict [(''device_id'', st_device_id m), (''is_online'', st_is_online m),
            (''is_playing'', st_is_playing m), (''is_muted'', st_is_muted m),
            (''volume'', st_volume m), (''current_offset_ms'', st_current_offset_ms m),
            (''cpu_usage'', st_cpu_usage m), (''memory_usage'', st_memory_usage m),
            (''temperature'', st_temperature m), (''uptime'', st_uptime m),
            (''last_drift_ms'', st_last_drift_ms m),
            (''correlation_quality'', st_correlation_quality m),
            (''timestamp'', st_timestamp m)]"
| "asdict (Heartbeat m) =
     PDict [(''device_id'', hb_device_id m), (''timestamp'', hb_timestamp m),
            (''sequence'', hb_sequence m)]"
| "asdict (ConfigUpdate m) =
     PDict [(''device_id'', cu_device_id m), (''config'', cu_config m),
            (''config_version'', cu_config_version m), (''timestamp'', cu_timestamp m)]"
| "asdict (Command m) =
     PDict [(''device_id'', cmd_device_id m), (''command'', cmd_command m),
            (''params'', cmd_params m), (''command_id'', cmd_command_id m),
            (''timestamp'', cmd_timestamp m)]"
| "asdict (SyncStatus m) =
     PDict [(''sync_groups'', ss_sync_groups m), (''device_count'', ss_device_count m),
            (''online_devices'', ss_online_devices m), (''sync_events'', ss_sync_events m),
            (''last_sync_time'', ss_last_sync_time m), (''avg_drift_ms'', ss_avg_drift_ms m),
            (''max_drift_ms'', ss_max_drift_ms m), (''timestamp'', ss_timestamp m)]"

text \<open>
  The constructors \<open>message_class(**data)\<close>: the generated \<open>__init__\<close> binds the keyword
  arguments, then \<open>__post_init__\<close> fills the fields left \<open>None\<close>.
\<close>

definition DriftReportMessage :: "pyval \<Rightarrow> real \<Rightarrow> error + message" where
  "DriftReportMessage data current_time =
     (case bind_fields [(''device_id'', Required), (''drift_ms'', Required),
                        (''correlation'', Required), (''signal_strength'', Default (PFloat (-50))),
                        (''measurement_time'', Default PNone),
                        (''measurement_count'', Default (PInt 0)),
                        (''avg_drift_ms'', Default PNone), (''drift_variance'', Default PNone)]
             data of
        Inr [a, b, c, d, e, f, g, h] \<Rightarrow>
          Inr (DriftReport \<lparr> dr_device_id = a, dr_drift_ms = b, dr_correlation = c,
                 dr_signal_strength = d, dr_measurement_time = default_time e current_time,
                 dr_measurement_count = f, dr_avg_drift_ms = g, dr_drift_variance = h \<rparr>)
      | _ \<Rightarrow> Inl TypeError)"

definition BufferOffsetMessage :: "pyval \<Rightarrow> real \<Rightarrow> error + message" where
  "BufferOffsetMessage data current_time =
     (case bind_fields [(''device_id'', Required), (''offset_ms'', Required),
                        (''timestamp'', Default PNone), (''sync_group'', Default PNone)] data of
        Inr [a, b, c, d] \<Rightarrow>
          Inr (BufferOffset \<lparr> bo_device_id = a, bo_offset_ms = b,
                 bo_timestamp = default_time c current_time, bo_sync_group = d \<rparr>)
      | _ \<Rightarrow> Inl TypeError)"

definition DeviceRegisterMessage :: "pyval \<Rightarrow> real \<Rightarrow> error + message" where
  "DeviceRegisterMessage data current_time =
     (case bind_fields [(''device_id'', Required), (''device_name'', Required),
                        (''device_type'', Required), (''location'', Default PNone),
                        (''base_latency_ms'', Default (PFloat 0)),
                        (''sync_group'', Default (PStr ''default'')),
                        (''capabilities'', Default PNone), (''version'', Default (PStr ''1.0'')),
                        (''ip_address'', Default PNone)] data of
        Inr [a, b, c, d, e, f, g, h, i] \<Rightarrow>
          Inr (DeviceRegister \<lparr> reg_device_id = a, reg_device_name = b, reg_device_type = c,
                 reg_location = d, reg_base_latency_ms = e, reg_sync_group = f,
                 reg_capabilities = (if g = PNone then PList [] else g), reg_version = h,
                 reg_ip_address = i \<rparr>)
      | _ \<Rightarrow> Inl TypeError)"

definition DeviceStatusMessage :: "pyval \<Rightarrow> real \<Rightarrow> error + message" where
  "DeviceStatusMessage data current_time =
     (case bind_fields [(''device_id'', Required), (''is_online'', Required),
                        (''is_playing'', Required), (''is_muted'', Default (PBool False)),
                        (''volume'', Default (PFloat 1)), (''current_offset_ms'', Default (PFloat 0)),
                        (''cpu_usage'', Default (PFloat 0)), (''memory_usage'', Default (PFloat 0)),
                        (''temperature'', Default (PFloat 0)), (''uptime'', Default (PFloat 0)),
                        (''last_drift_ms'', Default (PFloat 0)),
                        (''correlation_quality'', Default (PFloat 0)),
                        (''timestamp'', Default PNone)] data of
        Inr [a, b, c, d, e, f, g, h, i, j, k, l, t] \<Rightarrow>
          Inr (DeviceStatus \<lparr> st_device_id = a, st_is_online = b, st_is_playing = c,
                 st_is_muted = d, st_volume = e, st_current_offset_ms = f, st_cpu_usage = g,
                 st_memory_usage = h, st_temperature = i, st_uptime = j, st_last_drift_ms = k,
                 st_correlation_quality = l, st_timestamp = default_time t current_time \<rparr>)
      | _ \<Rightarrow> Inl TypeError)"

definition HeartbeatMessage :: "pyval \<Rightarrow> real \<Rightarrow> error + message" where
  "HeartbeatMessage data current_time =
     (case bind_fields [(''device_id'', Required), (''timestamp'', Default PNone),
                        (''sequence'', Default (PInt 0))] data of
        Inr [a, b, c] \<Rightarrow>
          Inr (Heartbeat \<lparr> hb_device_id = a, hb_timestamp = default_time b current_time,
                 hb_sequence = c \<rparr>)
      | _ \<Rightarrow> Inl TypeError)"

definition ConfigUpdateMessage :: "pyval \<Rightarrow> real \<Rightarrow> error + message" where
  "ConfigUpdateMessage data current_time =
     (case bind_fields [(''device_id'', Required), (''config'', Required),
                        (''config_version'', Default (PStr ''1.0'')),
                        (''timestamp'', Default PNone)] data of
        Inr [a, b, c, d] \<Rightarrow>
          Inr (ConfigUpdate \<lparr> cu_device_id = a, cu_config = b, cu_config_version = c,
                 cu_timestamp = default_time d current_time \<rparr>)
      | _ \<Rightarrow> Inl TypeError)"

text \<open>
  The command id \<open>f"cmd_{int(self.timestamp * 1000)}"\<close> that \<open>__post_init__\<close> of
  \<open>CommandMessage\<close> generates from the timestamp when none is given. For a timestamp that
  is a string the product is the repeated string and \<open>int\<close> raises \<open>ValueError\<close> (a string
  that spells an integer is not modelled); for a list, tuple, dict or other object
  \<open>TypeError\<close> is raised.
\<close>

definition generated_command_id :: "pyval \<Rightarrow> error + pyval" where
  "generated_command_id timestamp =
     (case timestamp of
        PInt i \<Rightarrow> Inr (PStr (''cmd_'' @ string_of_int (i * 1000)))
      | PFloat r \<Rightarrow> Inr (PStr (''cmd_'' @ string_of_int (py_int (r * 1000))))
      | PBool b \<Rightarrow> Inr (PStr (''cmd_'' @ string_of_int (if b then 1000 else 0)))
      | PStr s \<Rightarrow> Inl ValueError
      | _ \<Rightarrow> Inl TypeError)"

definition CommandMessage :: "pyval \<Rightarrow> real \<Rightarrow> error + message" where
  "CommandMessage data current_time =
     (case bind_fields [(''device_id'', Required), (''command'', Required),
                        (''params'', Default PNone), (''command_id'', Default PNone),
                        (''timestamp'', Default PNone)] data of
        Inr [a, b, c, d, e] \<Rightarrow>
          (let timestamp = default_time e current_time;
               params = (if c = PNone then PDict [] else c)
           in case (if d = PNone then generated_command_id timestamp else Inr d) of
                Inl err \<Rightarrow> Inl err
              | Inr command_id \<Rightarrow>
                  Inr (Command \<lparr> cmd_device_id = a, cmd_command = b, cmd_params = params,
                         cmd_command_id = command_id, cmd_timestamp = timestamp \<rparr>))
      | _ \<Rightarrow> Inl TypeError)"

definition SyncStatusMessage :: "pyval \<Rightarrow> real \<Rightarrow> error + message" where
  "SyncStatusMessage data current_time =
     (case bind_fields [(''sync_groups'', Required), (''device_count'', Required),
                        (''online_devices'', Required), (''sync_events'', Required),
                        (''last_sync_time'', Required), (''avg_drift_ms'', Default (PFloat 0)),
                        (''max_drift_ms'', Default (PFloat 0)), (''timestamp'', Default PNone)]
             data of
        Inr [a, b, c, d, e, f, g, h] \<Rightarrow>
          Inr (SyncStatus \<lparr> ss_sync_groups = a, ss_device_count = b, ss_online_devices = c,
                 ss_sync_events = d, ss_last_sync_time = e, ss_avg_drift_ms = f,
                 ss_max_drift_ms = g, ss_timestamp = default_time h current_time \<rparr>)
      | _ \<Rightarrow> Inl TypeError)"

subsection \<open>SyncStreamProtocol\<close>

text \<open>
  \<open>SyncStreamProtocol.serialize_message(message)\<close>: a dataclass instance is turned into
  its dict first, any other value is dumped as it is.
\<close>

datatype serializable = Instance message | Value pyval

fun serialize_message :: "serializable \<Rightarrow> json" where
  "serialize_message (Instance m) = json_dumps (asdict m)"
| "serialize_message (Value v) = json_dumps v"

text \<open>
  \<open>SyncStreamProtocol.deserialize_message(message_type, json_data)\<close> at clock reading
  \<open>current_time\<close>: \<open>json.loads\<close> raises a \<open>ValueError\<close> on malformed text, a message type
  without a class raises \<open>ValueError\<close>, and a \<open>TypeError\<close> of the constructor is raised
  again as \<open>ValueError\<close>.
\<close>

definition deserialize_message :: "message_type \<Rightarrow> json_text \<Rightarrow> real \<Rightarrow> error + message" where
  "deserialize_message mt json_data current_time =
     (case json_data of
        Malformed \<Rightarrow> Inl ValueError
      | Text j \<Rightarrow>
          (let data = json_loads j
           in case (case mt of
                      DRIFT_REPORT \<Rightarrow> Some DriftReportMessage
                    | BUFFER_OFFSET \<Rightarrow> Some BufferOffsetMessage
                    | DEVICE_REGISTER \<Rightarrow> Some DeviceRegisterMessage
                    | DEVICE_STATUS \<Rightarrow> Some DeviceStatusMessage
                    | HEARTBEAT \<Rightarrow> Some HeartbeatMessage
                    | CONFIG_UPDATE \<Rightarrow> Some ConfigUpdateMessage
                    | COMMAND \<Rightarrow> Some CommandMessage
                    | SYNC_STATUS \<Rightarrow> Some SyncStatusMessage
                    | AUDIO_STREAM \<Rightarrow> None) of
                None \<Rightarrow> Inl ValueError
              | Some message_class \<Rightarrow>
                  (case message_class data current_time of
                     Inl TypeError \<Rightarrow> Inl ValueError
                   | Inl e \<Rightarrow> Inl e
                   | Inr m \<Rightarrow> Inr m)))"

text \<open>
  A well-formed message: every field holds a value that JSON represents, and the fields
  that \<open>__post_init__\<close> fills are filled, as they are in every constructed message.
\<close>

fun well_formed :: "message \<Rightarrow> bool" where
  "well_formed (DriftReport m) \<longleftrightarrow>
     json_native (asdict (DriftReport m)) \<and> dr_measurement_time m \<noteq> PNone"
| "well_formed (BufferOffset m) \<longleftrightarrow>
     json_native (asdict (BufferOffset m)) \<and> bo_timestamp m \<noteq> PNone"
| "well_formed (DeviceRegister m) \<longleftrightarrow>
     json_native (asdict (DeviceRegister m)) \<and> reg_capabilities m \<noteq> PNone"
| "well_formed (DeviceStatus m) \<longleftrightarrow>
     json_native (asdict (DeviceStatus m)) \<and> st_timestamp m \<noteq> PNone"
| "well_formed (Heartbeat m) \<longleftrightarrow>
     json_native (asdict (Heartbeat m)) \<and> hb_timestamp m \<noteq> PNone"
| "well_formed (ConfigUpdate m) \<longleftrightarrow>
     json_native (asdict (ConfigUpdate m)) \<and> cu_timestamp m \<noteq> PNone"
| "well_formed (Command m) \<longleftrightarrow>
     json_native (asdict (Command m)) \<and> cmd_timestamp m \<noteq> PNone \<and> cmd_params m \<noteq> PNone
       \<and> cmd_command_id m \<noteq> PNone"
| "well_formed (SyncStatus m) \<longleftrightarrow>
     json_native (asdict (SyncStatus m)) \<and> ss_timestamp m \<noteq> PNone"

section \<open>Properties of DeviceState\<close>

lemma length_deque_append:
  "0 < n \<Longrightarrow> length (deque_append n q x) = (if length q \<ge> n then n else Suc (length q))"
  by (auto simp: deque_append_def)

lemma deque_append_short:
  "length q < n \<Longrightarrow> deque_append n q x = q @ [x]"
  by (auto simp: deque_append_def)

text \<open>
  C10: with an empty drift history, \<open>calculate_target_offset\<close> returns exactly
  \<open>base_latency_ms\<close> whatever the reference drift is; for a non-zero reference drift this
  differs from \<open>base_latency_ms + reference_drift\<close>, the value of the general formula at
  smoothed drift 0.
\<close>

theorem calculate_target_offset_empty_history:
  assumes "drift_history d = []"
  shows "calculate_target_offset d r = base_latency_ms d
         \<and> (r \<noteq> 0 \<longrightarrow> calculate_target_offset d r \<noteq> base_latency_ms d + r)"
  using assms by (simp add: calculate_target_offset_def)

theorem calculate_target_offset_empty_history_witness:
  "drift_history (DeviceState ''A'' 50) = []
   \<and> calculate_target_offset (DeviceState ''A'' 50) 7 = 50
   \<and> calculate_target_offset (DeviceState ''A'' 50) 7 \<noteq> 50 + 7"
  using calculate_target_offset_empty_history [of "DeviceState ''A'' 50" 7]
  by (simp add: DeviceState_def)

lemma update_statistics_total:
  assumes "length (drift_history d) \<ge> 3"
  shows "\<exists>d'. update_statistics d s = Inr d'"
  using assms
  by (auto simp: update_statistics_def statistics_mean_def statistics_variance_def last_n_def
      Let_def split: sum.splits)

lemma update_drift_total: "\<exists>d'. update_drift d x s t = Inr d'"
  using update_statistics_total by (auto simp: update_drift_def Let_def)

text \<open>
  C8 as stated fails: the statistics block, and with it the connection quality, is guarded by
  \<open>len(self.drift_history) >= 3\<close>. The first update of a fresh device with signal strength
  -80 leaves \<open>connection_quality\<close> at its initial value 1, where the formula gives 1/2.
\<close>

theorem connection_quality_first_update_counterexample:
  "update_drift (DeviceState ''A'' 0) 0 (-80) 1 =
     Inr \<lparr> device_id = ''A'', base_latency_ms = 0,
           drift_history = [\<lparr> e_drift_ms = 0, e_timestamp = 1, e_signal_strength = -80 \<rparr>],
           last_drift_ms = 0, last_drift_time = 1, current_offset_ms = 0,
           target_offset_ms = 0, drift_variance = 0, avg_drift_ms = 0,
           connection_quality = 1, is_online = True, last_seen = 1 \<rparr>
   \<and> quality_formula (-80) 0 = 1/2"
  by (simp add: update_drift_def DeviceState_def deque_append_def quality_formula_def)

text \<open>
  C8 amended: every call to \<open>update_drift\<close> returns, and it leaves \<open>connection_quality\<close>
  equal to the formula (on the new signal strength and the new variance) when the history
  then holds at least three entries; with fewer entries \<open>connection_quality\<close> is unchanged.
\<close>

theorem update_drift_connection_quality:
  "\<exists>d'. update_drift d drift s t = Inr d'
     \<and> connection_quality d' =
        (if length (drift_history d') \<ge> 3 then quality_formula s (drift_variance d')
         else connection_quality d)"
  by (auto simp: update_drift_def Let_def update_statistics_def statistics_mean_def
      statistics_variance_def last_n_def quality_formula_def split: sum.splits)

theorem update_drift_connection_quality_witness:
  "\<exists>d'. update_drift (DeviceState ''A'' 0) 0 (-80) 1 = Inr d' \<and> connection_quality d' = 1"
  using update_drift_connection_quality [of "DeviceState ''A'' 0" 0 "-80" 1]
  by (auto simp: update_drift_def DeviceState_def deque_append_def)

section \<open>Properties of DriftDetector\<close>



section \<open>Properties of SyncController\<close>

lemma avg_drifts_known:
  "\<forall>i\<in>set ids. devs i \<noteq> None \<Longrightarrow>
   avg_drifts devs ids = Inr (map (\<lambda>i. case devs i of None \<Rightarrow> 0 | Some d \<Rightarrow> avg_drift_ms d) ids)"
  by (induction ids) (auto split: option.splits)

lemma avg_drifts_stable:
  "avg_drifts (devices c) (stable_devices c ids) =
     Inr (map (\<lambda>i. case devices c i of None \<Rightarrow> 0 | Some d \<Rightarrow> avg_drift_ms d) (stable_devices c ids))"
  by (rule avg_drifts_known) (auto simp: stable_devices_def split: option.splits)

lemma statistics_median_total:
  assumes "xs \<noteq> []"
  shows "\<exists>r. statistics_median xs = Inr r"
proof -
  have "sort xs \<noteq> []" using assms by (metis length_0_conv length_sort)
  then have "statistics_median xs =
          Inr (if length xs mod 2 = 1 then sort xs ! (length xs div 2)
               else (sort xs ! (length xs div 2 - 1) + sort xs ! (length xs div 2)) / 2)"
    by (simp add: statistics_median_def Let_def)
  then show ?thesis by blast
qed

lemma reference_drift_total:
  assumes "stable_devices c ids \<noteq> []"
  shows "\<exists>r. reference_drift c ids = Inr r"
  using assms statistics_median_total
  by (simp add: reference_drift_def avg_drifts_stable)

lemma adjust_device_fields:
  "base_latency_ms (fst (adjust_device tol rate r d)) = base_latency_ms d"
  "drift_history (fst (adjust_device tol rate r d)) = drift_history d"
  "avg_drift_ms (fst (adjust_device tol rate r d)) = avg_drift_ms d"
  "last_drift_ms (fst (adjust_device tol rate r d)) = last_drift_ms d"
  "drift_variance (fst (adjust_device tol rate r d)) = drift_variance d"
  "connection_quality (fst (adjust_device tol rate r d)) = connection_quality d"
  "is_online (fst (adjust_device tol rate r d)) = is_online d"
  by (simp_all add: adjust_device_def Let_def)

lemma adjust_device_target [simp]:
  "calculate_target_offset (fst (adjust_device tol rate r d)) r' = calculate_target_offset d r'"
  by (simp add: calculate_target_offset_def adjust_device_fields)

lemma adjust_device_stable [simp]:
  "is_stable (fst (adjust_device tol rate r d)) = is_stable d"
  by (simp add: is_stable_def is_stable_with_def adjust_device_fields)

lemma adjust_device_idem:
  "0 \<le> tol \<Longrightarrow>
   adjust_device tol rate r (fst (adjust_device tol rate r d)) = (fst (adjust_device tol rate r d), False)"
  by (auto simp: adjust_device_def Let_def calculate_target_offset_def)

lemma adjust_devices_apply:
  "distinct ids \<Longrightarrow>
   fst (adjust_devices tol rate r ids devs n) i =
     (if i \<in> set ids then map_option (\<lambda>d. fst (adjust_device tol rate r d)) (devs i) else devs i)"
proof (induction ids arbitrary: devs n)
  case Nil
  then show ?case by simp
next
  case (Cons a ids)
  then show ?case
    by (cases "devs a") (auto split: prod.splits)
qed

lemma adjust_devices_noop:
  "\<forall>i\<in>set ids. \<forall>d. devs i = Some d \<longrightarrow> adjust_device tol rate r d = (d, False) \<Longrightarrow>
   adjust_devices tol rate r ids devs n = (devs, n)"
proof (induction ids arbitrary: devs n)
  case Nil
  then show ?case by simp
next
  case (Cons a ids)
  show ?case
  proof (cases "devs a")
    case None
    with Cons show ?thesis by simp
  next
    case (Some d)
    with Cons.prems have "adjust_device tol rate r d = (d, False)" by simp
    moreover have "devs(a \<mapsto> d) = devs" using Some by (rule map_upd_triv)
    ultimately show ?thesis using Some Cons by simp
  qed
qed

text \<open>No call of the drift path of \<open>src/sync_controller.py\<close> raises.\<close>

lemma sync_group_total: "\<exists>c'. sync_group c g ids = Inr c'"
proof (cases "length (stable_devices c ids) < 2")
  case True
  then show ?thesis by (simp add: sync_group_def)
next
  case False
  then have "stable_devices c ids \<noteq> []" by auto
  then obtain r where "reference_drift c ids = Inr r" using reference_drift_total by blast
  with False show ?thesis by (simp add: sync_group_def split: prod.splits)
qed

lemma sync_all_groups_total: "\<exists>c'. sync_all_groups c gs = Inr c'"
proof (induction gs arbitrary: c)
  case Nil
  then show ?case by simp
next
  case (Cons a gs)
  obtain g ids where a: "a = (g, ids)" by (cases a)
  obtain c1 where "sync_group c g ids = Inr c1" using sync_group_total by blast
  with Cons a show ?case by simp
qed

lemma check_synchronization_total: "\<exists>c'. check_synchronization c t = Inr c'"
  using sync_all_groups_total [of c "sync_groups c"]
  by (auto simp: check_synchronization_def)

lemma update_device_drift_total: "\<exists>c'. update_device_drift c did x s tu tc = Inr c'"
proof (cases "devices c did")
  case None
  then show ?thesis by (simp add: update_device_drift_def)
next
  case (Some d)
  obtain d' where "update_drift d x s tu = Inr d'" using update_drift_total by blast
  with Some show ?thesis
    using check_synchronization_total by (simp add: update_device_drift_def)
qed

section \<open>The two-device scenario\<close>

lemma two_device_group_eq:
  "two_device_group = two_devices (DeviceState ''A'' 50) (DeviceState ''B'' 100) 0 0"
  by (simp add: two_devices_def two_device_group_def register_device_def SyncController_def
      dict_get_def dict_set_def Let_def)

lemma two_devices_fields [simp]:
  "devices (two_devices dA dB ev lst) = [''A'' \<mapsto> dA, ''B'' \<mapsto> dB]"
  "sync_groups (two_devices dA dB ev lst) = [(''default'', []), (''G'', [''A'', ''B''])]"
  "sync_tolerance_ms (two_devices dA dB ev lst) = 10"
  "adjustment_rate (two_devices dA dB ev lst) = 1/10"
  "sync_events (two_devices dA dB ev lst) = ev"
  "last_sync_time (two_devices dA dB ev lst) = lst"
  by (simp_all add: two_devices_def two_device_group_def register_device_def SyncController_def
      dict_get_def dict_set_def Let_def)

lemma two_devices_updates [simp]:
  "(two_devices dA dB ev lst)\<lparr> last_sync_time := t \<rparr> = two_devices dA dB ev t"
  "(two_devices dA dB ev lst)\<lparr> devices := [''A'' \<mapsto> dA', ''B'' \<mapsto> dB'] \<rparr> = two_devices dA' dB' ev lst"
  "(two_devices dA dB ev lst)\<lparr> sync_events := ev' \<rparr> = two_devices dA dB ev' lst"
  by (simp_all add: two_devices_def)

lemma two_devices_upd_A:
  "[''A'' \<mapsto> dA, ''B'' \<mapsto> dB](''A'' \<mapsto> dA') = [''A'' \<mapsto> dA', ''B'' \<mapsto> dB]"
  by (rule ext) simp

lemma two_devices_quiet:
  assumes "\<not> (is_online dA \<and> is_stable dA \<and> is_online dB \<and> is_stable dB)"
  shows "sync_all_groups (two_devices dA dB ev lst) [(''default'', []), (''G'', [''A'', ''B''])]
           = Inr (two_devices dA dB ev lst)"
  using assms by (auto simp: sync_group_def stable_devices_def)

lemma two_devices_quiet_check:
  assumes "\<not> (is_online dA \<and> is_stable dA \<and> is_online dB \<and> is_stable dB)"
  shows "\<exists>lst'. check_synchronization (two_devices dA dB ev lst) t = Inr (two_devices dA dB ev lst')"
  using two_devices_quiet [OF assms] by (auto simp: check_synchronization_def)

lemma report_A_quiet:
  assumes "\<not> is_stable dB" and "update_drift dA x s tu = Inr dA'"
  shows "\<exists>lst'. update_device_drift (two_devices dA dB ev lst) ''A'' x s tu tc
                  = Inr (two_devices dA' dB ev lst')"
  using assms two_devices_quiet_check [of dA' dB ev lst tc]
  by (simp add: update_device_drift_def two_devices_upd_A)

lemma report_B_quiet:
  assumes "\<not> is_stable dB'" and "update_drift dB x s tu = Inr dB'"
  shows "\<exists>lst'. update_device_drift (two_devices dA dB ev lst) ''B'' x s tu tc
                  = Inr (two_devices dA dB' ev lst')"
  using assms two_devices_quiet_check [of dA dB' ev lst tc]
  by (simp add: update_device_drift_def)

lemma feed_A_quiet:
  assumes "\<not> is_stable dB"
  shows "\<exists>dA' lst'. device_reports dA rs = Inr dA'
            \<and> report_drifts (two_devices dA dB ev lst) ''A'' rs = Inr (two_devices dA' dB ev lst')"
proof (induction rs arbitrary: dA lst)
  case Nil
  then show ?case by auto
next
  case (Cons r rs)
  obtain x tu tc where r: "r = (x, tu, tc)" by (cases r)
  obtain d1 where d1: "update_drift dA x (-50) tu = Inr d1" using update_drift_total by blast
  obtain l1 where "update_device_drift (two_devices dA dB ev lst) ''A'' x (-50) tu tc
                  = Inr (two_devices d1 dB ev l1)"
    using report_A_quiet [OF assms d1] by blast
  then show ?case using Cons.IH [of d1 l1] d1 r by simp
qed

lemma length_history_update:
  assumes "update_drift d x s t = Inr d'" and "length (drift_history d) < 50"
  shows "length (drift_history d') = Suc (length (drift_history d))"
  using assms
  by (auto simp: update_drift_def update_statistics_def Let_def deque_append_def
      split: if_splits sum.splits)

lemma short_history_unstable: "length (drift_history d) < 5 \<Longrightarrow> \<not> is_stable d"
  by (simp add: is_stable_def is_stable_with_def)

lemma feed_B_quiet:
  assumes "length (drift_history dB) + length rs < 5"
  shows "\<exists>dB' lst'. device_reports dB rs = Inr dB'
            \<and> report_drifts (two_devices dA dB ev lst) ''B'' rs = Inr (two_devices dA dB' ev lst')"
  using assms
proof (induction rs arbitrary: dB lst)
  case Nil
  then show ?case by auto
next
  case (Cons r rs)
  obtain x tu tc where r: "r = (x, tu, tc)" by (cases r)
  obtain d1 where d1: "update_drift dB x (-50) tu = Inr d1" using update_drift_total by blast
  have len: "length (drift_history d1) = Suc (length (drift_history dB))"
    using length_history_update [OF d1] Cons.prems by simp
  then have "\<not> is_stable d1" using Cons.prems by (intro short_history_unstable) simp
  then obtain l1 where "update_device_drift (two_devices dA dB ev lst) ''B'' x (-50) tu tc
                  = Inr (two_devices dA d1 ev l1)"
    using report_B_quiet [OF _ d1] by blast
  moreover have "length (drift_history d1) + length rs < 5" using len Cons.prems by simp
  ultimately show ?case using Cons.IH [of d1 l1] d1 r by simp
qed

lemmas device_eval = update_drift_def DeviceState_def deque_append_def update_statistics_def
  last_n_def statistics_mean_def statistics_variance_def Let_def power2_eq_square

lemma device_A_reports:
  "device_reports (DeviceState ''A'' 50)
     [(10, a1, b1), (12, a2, b2), (11, a3, b3), (10, a4, b4), (12, a5, b5)]
   = Inr (device_A_reported a1 a2 a3 a4 a5 0 0)"
  by (simp add: device_eval device_A_reported_def)

lemma device_B_reports:
  "\<exists>d4. device_reports (DeviceState ''B'' 100)
     [(-8, a1, b1), (-10, a2, b2), (-9, a3, b3), (-10, a4, b4)] = Inr d4
   \<and> update_drift d4 (-8) (-50) a5 = Inr (device_B_reported a1 a2 a3 a4 a5 0 0)"
  by (simp add: device_eval device_B_reported_def)

lemma reported_stable:
  "is_stable (device_A_reported a1 a2 a3 a4 a5 x y)"
  "is_stable (device_B_reported a1 a2 a3 a4 a5 x y)"
  "is_online (device_A_reported a1 a2 a3 a4 a5 x y)"
  "is_online (device_B_reported a1 a2 a3 a4 a5 x y)"
  by (simp_all add: is_stable_def is_stable_with_def device_A_reported_def device_B_reported_def)

lemma reported_reference_drift:
  "reference_drift (two_devices (device_A_reported a1 a2 a3 a4 a5 x y)
                      (device_B_reported b1 b2 b3 b4 b5 x' y') ev lst) [''A'', ''B''] = Inr 1"
  by (simp add: reference_drift_def stable_devices_def reported_stable)
     (simp add: statistics_median_def device_A_reported_def device_B_reported_def)

lemma first_pass:
  "sync_group (two_devices (device_A_reported a1 a2 a3 a4 a5 0 0)
                 (device_B_reported b1 b2 b3 b4 b5 0 0) ev lst) ''G'' [''A'', ''B'']
   = Inr (two_devices (device_A_reported a1 a2 a3 a4 a5 4 40)
            (device_B_reported b1 b2 b3 b4 b5 11 110) (Suc ev) lst)"
  apply (simp add: sync_group_def reported_reference_drift)
  apply (simp add: stable_devices_def reported_stable adjust_device_def calculate_target_offset_def)
  apply (simp add: device_A_reported_def device_B_reported_def two_devices_upd_A)
  done

lemma later_pass:
  "sync_group (two_devices (device_A_reported a1 a2 a3 a4 a5 4 40)
                 (device_B_reported b1 b2 b3 b4 b5 11 110) ev lst) ''G'' [''A'', ''B'']
   = Inr (two_devices (device_A_reported a1 a2 a3 a4 a5 4 40)
            (device_B_reported b1 b2 b3 b4 b5 11 110) ev lst)"
  apply (simp add: sync_group_def reported_reference_drift)
  apply (simp add: stable_devices_def reported_stable adjust_device_def calculate_target_offset_def)
  apply (simp add: device_A_reported_def device_B_reported_def two_devices_upd_A)
  done

lemma report_drifts_append:
  "report_drifts c did (rs @ rs') =
     (case report_drifts c did rs of Inl e \<Rightarrow> Inl e | Inr c' \<Rightarrow> report_drifts c' did rs')"
  by (induction c did rs rule: report_drifts.induct) (auto split: sum.splits)

lemma sync_group_empty: "sync_group c g [] = Inr c"
  by (simp add: sync_group_def stable_devices_def)

lemma last_report_check:
  "check_synchronization (two_devices (device_A_reported a1 a2 a3 a4 a5 0 0)
                 (device_B_reported b1 b2 b3 b4 b5 0 0) ev lst) t
   = Inr (two_devices (device_A_reported a1 a2 a3 a4 a5 0 0)
                 (device_B_reported b1 b2 b3 b4 b5 0 0) ev lst)
   \<or> check_synchronization (two_devices (device_A_reported a1 a2 a3 a4 a5 0 0)
                 (device_B_reported b1 b2 b3 b4 b5 0 0) ev lst) t
   = Inr (two_devices (device_A_reported a1 a2 a3 a4 a5 4 40)
            (device_B_reported b1 b2 b3 b4 b5 11 110) (Suc ev) t)"
  by (simp add: check_synchronization_def sync_group_empty first_pass)

lemma forced_pass:
  assumes "c = two_devices (device_A_reported a1 a2 a3 a4 a5 0 0)
                 (device_B_reported b1 b2 b3 b4 b5 0 0) 0 lst
         \<or> c = two_devices (device_A_reported a1 a2 a3 a4 a5 4 40)
                 (device_B_reported b1 b2 b3 b4 b5 11 110) (Suc 0) lst"
  shows "force_resync c (Some ''G'') t
         = Inr (two_devices (device_A_reported a1 a2 a3 a4 a5 4 40)
                 (device_B_reported b1 b2 b3 b4 b5 11 110) (Suc 0) t)"
  using assms by (auto simp: force_resync_def dict_get_def first_pass later_pass)

text \<open>
  C4: in a controller with tolerance 10 and rate 0.1, devices \<open>A\<close> (base latency 50) and
  \<open>B\<close> (base latency 100) are registered in group \<open>G\<close>; \<open>A\<close> reports the drifts
  10, 12, 11, 10, 12 and \<open>B\<close> reports -8, -10, -9, -10, -8, at any clock readings. Then the
  average drifts are 11 and -9, both devices are stable, the reference drift of the group is
  their median 1, and after a sync pass of the group the target offsets are 40 and 110 and
  the current offsets are 4 and 11. Exactly one pass adjusts (\<open>sync_events\<close> is 1): the
  forced pass or, when the rate limit lets it run, the pass triggered by the last report.
\<close>

theorem two_device_group_converges:
  "\<exists>c1 c2 c3 dA dB dA' dB'.
      report_drifts two_device_group ''A''
          [(10, a1, ca1), (12, a2, ca2), (11, a3, ca3), (10, a4, ca4), (12, a5, ca5)] = Inr c1
    \<and> report_drifts c1 ''B''
          [(-8, b1, cb1), (-10, b2, cb2), (-9, b3, cb3), (-10, b4, cb4), (-8, b5, cb5)] = Inr c2
    \<and> devices c2 ''A'' = Some dA \<and> devices c2 ''B'' = Some dB
    \<and> avg_drift_ms dA = 11 \<and> avg_drift_ms dB = -9
    \<and> stable_devices c2 [''A'', ''B''] = [''A'', ''B'']
    \<and> reference_drift c2 [''A'', ''B''] = Inr 1
    \<and> force_resync c2 (Some ''G'') t = Inr c3
    \<and> devices c3 ''A'' = Some dA' \<and> devices c3 ''B'' = Some dB'
    \<and> target_offset_ms dA' = 40 \<and> target_offset_ms dB' = 110
    \<and> current_offset_ms dA' = 4 \<and> current_offset_ms dB' = 11
    \<and> sync_events c3 = 1"
proof -
  let ?A0 = "DeviceState ''A'' 50" and ?B0 = "DeviceState ''B'' 100"
  let ?A5 = "device_A_reported a1 a2 a3 a4 a5" and ?B5 = "device_B_reported b1 b2 b3 b4 b5"
  let ?ra = "[(10, a1, ca1), (12, a2, ca2), (11, a3, ca3), (10, a4, ca4), (12, a5, ca5)]"
  let ?rb4 = "[(-8, b1, cb1), (-10, b2, cb2), (-9, b3, cb3), (-10, b4, cb4)]"
  have B0: "\<not> is_stable ?B0"
    by (rule short_history_unstable) (simp add: DeviceState_def)
  obtain l1 where c1: "report_drifts two_device_group ''A'' ?ra = Inr (two_devices (?A5 0 0) ?B0 0 l1)"
    using feed_A_quiet [OF B0, of ?A0 ?ra 0 0] device_A_reports [of a1 ca1 a2 ca2 a3 ca3 a4 ca4 a5 ca5]
    by (auto simp: two_device_group_eq)
  obtain d4 where d4: "device_reports ?B0 ?rb4 = Inr d4"
    and d5: "update_drift d4 (-8) (-50) b5 = Inr (?B5 0 0)"
    using device_B_reports [of b1 cb1 b2 cb2 b3 cb3 b4 cb4 b5] by blast
  have "length (drift_history ?B0) + length ?rb4 < 5" by (simp add: DeviceState_def)
  from feed_B_quiet [OF this, of "?A5 0 0" 0 l1] d4
  obtain l2 where c14: "report_drifts (two_devices (?A5 0 0) ?B0 0 l1) ''B'' ?rb4
                         = Inr (two_devices (?A5 0 0) d4 0 l2)"
    by auto
  have last: "report_drifts (two_devices (?A5 0 0) d4 0 l2) ''B'' [(-8, b5, cb5)]
              = check_synchronization (two_devices (?A5 0 0) (?B5 0 0) 0 l2) cb5"
    using d5 by (simp add: update_device_drift_def split: sum.splits)
  have split: "[(-8, b1, cb1), (-10, b2, cb2), (-9, b3, cb3), (-10, b4, cb4), (-8, b5, cb5)]
               = ?rb4 @ [(-8, b5, cb5)]" by simp
  have c2: "report_drifts (two_devices (?A5 0 0) ?B0 0 l1) ''B''
              [(-8, b1, cb1), (-10, b2, cb2), (-9, b3, cb3), (-10, b4, cb4), (-8, b5, cb5)]
            = check_synchronization (two_devices (?A5 0 0) (?B5 0 0) 0 l2) cb5"
    unfolding split report_drifts_append c14 using last by simp
  from last_report_check [of a1 a2 a3 a4 a5 b1 b2 b3 b4 b5 0 l2 cb5]
  obtain x y x' y' ev l3 where
    chk: "check_synchronization (two_devices (?A5 0 0) (?B5 0 0) 0 l2) cb5
          = Inr (two_devices (?A5 x y) (?B5 x' y') ev l3)"
    and cases: "two_devices (?A5 x y) (?B5 x' y') ev l3 = two_devices (?A5 0 0) (?B5 0 0) 0 l3
              \<or> two_devices (?A5 x y) (?B5 x' y') ev l3 = two_devices (?A5 4 40) (?B5 11 110) (Suc 0) l3"
    by metis
  let ?c2 = "two_devices (?A5 x y) (?B5 x' y') ev l3"
  let ?c3 = "two_devices (?A5 4 40) (?B5 11 110) (Suc 0) t"
  have f: "force_resync ?c2 (Some ''G'') t = Inr ?c3"
    using forced_pass [OF cases] .
  have st: "stable_devices ?c2 [''A'', ''B''] = [''A'', ''B'']"
    by (simp add: stable_devices_def reported_stable)
  have "report_drifts two_device_group ''A'' ?ra = Inr (two_devices (?A5 0 0) ?B0 0 l1)
      \<and> report_drifts (two_devices (?A5 0 0) ?B0 0 l1) ''B''
          [(-8, b1, cb1), (-10, b2, cb2), (-9, b3, cb3), (-10, b4, cb4), (-8, b5, cb5)] = Inr ?c2
      \<and> devices ?c2 ''A'' = Some (?A5 x y) \<and> devices ?c2 ''B'' = Some (?B5 x' y')
      \<and> avg_drift_ms (?A5 x y) = 11 \<and> avg_drift_ms (?B5 x' y') = -9
      \<and> stable_devices ?c2 [''A'', ''B''] = [''A'', ''B'']
      \<and> reference_drift ?c2 [''A'', ''B''] = Inr 1
      \<and> force_resync ?c2 (Some ''G'') t = Inr ?c3
      \<and> devices ?c3 ''A'' = Some (?A5 4 40) \<and> devices ?c3 ''B'' = Some (?B5 11 110)
      \<and> target_offset_ms (?A5 4 40) = 40 \<and> target_offset_ms (?B5 11 110) = 110
      \<and> current_offset_ms (?A5 4 40) = 4 \<and> current_offset_ms (?B5 11 110) = 11
      \<and> sync_events ?c3 = 1"
    using c1 c2 chk f st reported_reference_drift
    by (simp add: device_A_reported_def device_B_reported_def)
  then show ?thesis by blast
qed

lemma adjust_devices_stable:
  assumes "distinct ids"
  shows "stable_devices (c\<lparr> devices := fst (adjust_devices tol rate r ids (devices c) n),
                           sync_events := ev \<rparr>) js = stable_devices c js"
  unfolding stable_devices_def
  by (rule filter_cong) (auto simp: adjust_devices_apply [OF assms] adjust_device_fields
        split: option.splits)

lemma adjust_devices_avg:
  assumes "distinct ids"
  shows "avg_drifts (fst (adjust_devices tol rate r ids devs n)) js = avg_drifts devs js"
  by (induction js) (auto simp: adjust_devices_apply [OF assms] adjust_device_fields
        split: option.splits sum.splits)

lemma adjust_device_gap:
  "fst (adjust_device tol rate r d) =
     (if \<bar>calculate_target_offset d r - target_offset_ms d\<bar> > tol
      then d\<lparr> current_offset_ms :=
                 current_offset_ms d + (calculate_target_offset d r - current_offset_ms d) * rate,
               target_offset_ms := calculate_target_offset d r \<rparr>
      else d)"
  by (simp add: adjust_device_def Let_def)

lemma gap_contraction:
  "\<bar>(x + (t - x) * a) - t\<bar> = \<bar>1 - a\<bar> * \<bar>x - (t::real)\<bar>"
proof -
  have "(x + (t - x) * a) - t = (1 - a) * (x - t)" by (simp add: algebra_simps)
  then show ?thesis by (simp add: abs_mult)
qed

text \<open>
  C3 amended: for a registered device of a group with distinct ids and at least two stable
  devices, a sync pass computes the new target from the reference drift \<open>r\<close>; when the new
  target differs from the stored \<open>target_offset_ms\<close> by more than the tolerance, the pass
  multiplies the gap \<open>|current_offset_ms - new_target|\<close> by \<open>|1 - adjustment_rate|\<close> and
  stores the new target; otherwise it leaves the device unchanged. The pass changes neither the
  reference drift nor the new target, and with a non-negative tolerance a second pass changes
  nothing at all: the gap contracts on the first pass only.
\<close>

theorem sync_pass_contracts_once:
  assumes dev: "devices c did = Some d" and mem: "did \<in> set ids" and dist: "distinct ids"
    and st: "2 \<le> length (stable_devices c ids)"
  shows "\<exists>r c' d'. reference_drift c ids = Inr r \<and> sync_group c g ids = Inr c'
           \<and> devices c' did = Some d'
           \<and> calculate_target_offset d' r = calculate_target_offset d r
           \<and> (if \<bar>calculate_target_offset d r - target_offset_ms d\<bar> > sync_tolerance_ms c
               then \<bar>current_offset_ms d' - calculate_target_offset d r\<bar>
                      = \<bar>1 - adjustment_rate c\<bar> * \<bar>current_offset_ms d - calculate_target_offset d r\<bar>
                    \<and> target_offset_ms d' = calculate_target_offset d r
               else d' = d)
           \<and> reference_drift c' ids = Inr r
           \<and> (0 \<le> sync_tolerance_ms c \<longrightarrow> sync_group c' g ids = Inr c')"
proof -
  let ?tol = "sync_tolerance_ms c" and ?rate = "adjustment_rate c"
  from st have "stable_devices c ids \<noteq> []" by auto
  then obtain r where r: "reference_drift c ids = Inr r" using reference_drift_total by blast
  let ?res = "adjust_devices ?tol ?rate r ids (devices c) 0"
  let ?ev = "if snd ?res > 0 then sync_events c + 1 else sync_events c"
  let ?c' = "c\<lparr> devices := fst ?res, sync_events := ?ev \<rparr>"
  let ?d' = "fst (adjust_device ?tol ?rate r d)"
  have sg: "sync_group c g ids = Inr ?c'"
    using st r by (simp add: sync_group_def split: prod.splits)
  have d': "devices ?c' did = Some ?d'"
    using dev mem by (simp add: adjust_devices_apply [OF dist])
  have stable': "stable_devices ?c' ids = stable_devices c ids"
    by (rule adjust_devices_stable [OF dist])
  have r': "reference_drift ?c' ids = Inr r"
    using r by (simp add: reference_drift_def stable' adjust_devices_avg [OF dist])
  have gap: "if \<bar>calculate_target_offset d r - target_offset_ms d\<bar> > ?tol
             then \<bar>current_offset_ms ?d' - calculate_target_offset d r\<bar>
                    = \<bar>1 - ?rate\<bar> * \<bar>current_offset_ms d - calculate_target_offset d r\<bar>
                  \<and> target_offset_ms ?d' = calculate_target_offset d r
             else ?d' = d"
    by (simp add: adjust_device_gap gap_contraction)
  have again: "sync_group ?c' g ids = Inr ?c'" if tol: "0 \<le> ?tol"
  proof -
    have "adjust_devices ?tol ?rate r ids (fst ?res) 0 = (fst ?res, 0)"
    proof (rule adjust_devices_noop, intro ballI allI impI)
      fix i e assume i: "i \<in> set ids" and e: "fst ?res i = Some e"
      then obtain e0 where "devices c i = Some e0" and "e = fst (adjust_device ?tol ?rate r e0)"
        by (auto simp: adjust_devices_apply [OF dist])
      then show "adjust_device ?tol ?rate r e = (e, False)"
        using adjust_device_idem [OF tol] by simp
    qed
    then show ?thesis
      using st r' by (simp add: sync_group_def stable')
  qed
  show ?thesis
    using r sg d' r' gap again by (intro exI [of _ r] exI [of _ ?c'] exI [of _ ?d']) simp
qed

lemma two_device_ready_reached:
  "report_drifts two_device_group ''A'' [(10, 1, 1), (12, 1, 1), (11, 1, 1), (10, 1, 1), (12, 1, 1)]
     = Inr (two_devices (device_A_reported 1 1 1 1 1 0 0) (DeviceState ''B'' 100) 0 1)
   \<and> report_drifts (two_devices (device_A_reported 1 1 1 1 1 0 0) (DeviceState ''B'' 100) 0 1)
        ''B'' [(-8, 1, 1), (-10, 1, 1), (-9, 1, 1), (-10, 1, 1), (-8, 1, 1)]
     = Inr two_device_ready"
  apply (simp add: two_device_group_eq two_device_ready_def)
  apply (simp add: update_device_drift_def two_devices_upd_A check_synchronization_def
       sync_group_empty sync_group_def stable_devices_def is_stable_def is_stable_with_def
       device_eval device_A_reported_def device_B_reported_def)
  done

text \<open>
  C3 as stated fails on the second pass. After the ten reports and a first pass, \<open>A\<close> is
  stable with current offset 4 and target 40, a gap of 36. In the second pass the reference
  drift is still 1 and the new target still 40, but the tolerance gate compares the new target
  with the stored target, finds no difference and skips the adjustment: the gap stays 36
  and is not multiplied by 0.9.
\<close>

theorem second_pass_counterexample:
  "report_drifts two_device_group ''A'' [(10, 1, 1), (12, 1, 1), (11, 1, 1), (10, 1, 1), (12, 1, 1)]
     = Inr (two_devices (device_A_reported 1 1 1 1 1 0 0) (DeviceState ''B'' 100) 0 1)
   \<and> report_drifts (two_devices (device_A_reported 1 1 1 1 1 0 0) (DeviceState ''B'' 100) 0 1)
        ''B'' [(-8, 1, 1), (-10, 1, 1), (-9, 1, 1), (-10, 1, 1), (-8, 1, 1)]
     = Inr two_device_ready
   \<and> force_resync two_device_ready (Some ''G'') 2 = Inr two_device_synced
   \<and> devices two_device_synced ''A'' = Some (device_A_reported 1 1 1 1 1 4 40)
   \<and> is_stable (device_A_reported 1 1 1 1 1 4 40)
   \<and> reference_drift two_device_ready [''A'', ''B''] = Inr 1
   \<and> reference_drift two_device_synced [''A'', ''B''] = Inr 1
   \<and> calculate_target_offset (device_A_reported 1 1 1 1 1 0 0) 1 = 40
   \<and> calculate_target_offset (device_A_reported 1 1 1 1 1 4 40) 1 = 40
   \<and> current_offset_ms (device_A_reported 1 1 1 1 1 4 40) = 4
   \<and> force_resync two_device_synced (Some ''G'') 3
       = Inr (two_devices (device_A_reported 1 1 1 1 1 4 40)
                (device_B_reported 1 1 1 1 1 11 110) 1 3)
   \<and> \<bar>4 - 40\<bar> \<noteq> (1 - adjustment_rate two_device_synced) * \<bar>4 - (40::real)\<bar>"
proof -
  have "force_resync two_device_ready (Some ''G'') 2 = Inr two_device_synced"
    unfolding two_device_ready_def two_device_synced_def
    using forced_pass [of _ 1 1 1 1 1 1 1 1 1 1 1 2] by simp
  moreover have "force_resync two_device_synced (Some ''G'') 3
       = Inr (two_devices (device_A_reported 1 1 1 1 1 4 40)
                (device_B_reported 1 1 1 1 1 11 110) 1 3)"
    unfolding two_device_synced_def
    using forced_pass [of _ 1 1 1 1 1 1 1 1 1 1 2 3] by simp
  moreover have "calculate_target_offset (device_A_reported 1 1 1 1 1 0 0) 1 = 40"
     "calculate_target_offset (device_A_reported 1 1 1 1 1 4 40) 1 = 40"
     "current_offset_ms (device_A_reported 1 1 1 1 1 4 40) = 4"
    by (simp_all add: calculate_target_offset_def device_A_reported_def)
  moreover have "reference_drift two_device_ready [''A'', ''B''] = Inr 1"
     "reference_drift two_device_synced [''A'', ''B''] = Inr 1"
    by (simp_all add: two_device_ready_def two_device_synced_def reported_reference_drift)
  moreover have "devices two_device_synced ''A'' = Some (device_A_reported 1 1 1 1 1 4 40)"
    by (simp add: two_device_synced_def)
  moreover have "\<bar>4 - 40\<bar> \<noteq> (1 - adjustment_rate two_device_synced) * \<bar>4 - (40::real)\<bar>"
    by (simp add: two_device_synced_def)
  ultimately show ?thesis
    using two_device_ready_reached reported_stable(1) by simp
qed

theorem sync_pass_contracts_once_witness:
  "devices two_device_ready ''A'' = Some (device_A_reported 1 1 1 1 1 0 0)
   \<and> ''A'' \<in> set [''A'', ''B''] \<and> distinct [''A'', ''B'']
   \<and> 2 \<le> length (stable_devices two_device_ready [''A'', ''B''])
   \<and> 0 \<le> sync_tolerance_ms two_device_ready
   \<and> (\<exists>c' d'. sync_group two_device_ready ''G'' [''A'', ''B''] = Inr c'
         \<and> devices c' ''A'' = Some d'
         \<and> \<bar>current_offset_ms d' - 40\<bar> = (9/10) * \<bar>0 - 40\<bar>
         \<and> sync_group c' ''G'' [''A'', ''B''] = Inr c')"
proof -
  have h1: "devices two_device_ready ''A'' = Some (device_A_reported 1 1 1 1 1 0 0)"
    by (simp add: two_device_ready_def)
  have h2: "''A'' \<in> set [''A'', ''B'']" and h3: "distinct [''A'', ''B'']" by simp_all
  have h4: "2 \<le> length (stable_devices two_device_ready [''A'', ''B''])"
    by (simp add: two_device_ready_def stable_devices_def reported_stable)
  have h5: "0 \<le> sync_tolerance_ms two_device_ready" by (simp add: two_device_ready_def)
  have r: "reference_drift two_device_ready [''A'', ''B''] = Inr 1"
    by (simp add: two_device_ready_def reported_reference_drift)
  have t: "calculate_target_offset (device_A_reported 1 1 1 1 1 0 0) 1 = 40"
      "target_offset_ms (device_A_reported 1 1 1 1 1 0 0) = 0"
      "current_offset_ms (device_A_reported 1 1 1 1 1 0 0) = 0"
      "sync_tolerance_ms two_device_ready = 10" "adjustment_rate two_device_ready = 1/10"
    by (simp_all add: calculate_target_offset_def device_A_reported_def two_device_ready_def)
  from sync_pass_contracts_once [OF h1 h2 h3 h4, of "''G''"] r t h5
  have "\<exists>c' d'. sync_group two_device_ready ''G'' [''A'', ''B''] = Inr c'
         \<and> devices c' ''A'' = Some d'
         \<and> \<bar>current_offset_ms d' - 40\<bar> = (9/10) * \<bar>0 - 40\<bar>
         \<and> sync_group c' ''G'' [''A'', ''B''] = Inr c'"
    by auto
  then show ?thesis using h1 h2 h3 h4 h5 by blast
qed

section \<open>Properties of register\_device\<close>















section \<open>Properties of the configurable revision\<close>

lemma slice_from_neg_nonempty:
  "0 \<le> w \<Longrightarrow> xs \<noteq> [] \<Longrightarrow> slice_from_neg w xs \<noteq> []"
  by (cases xs) (auto simp: slice_from_neg_def)

lemma statistics_mean_objects_dicts:
  "statistics_mean_objects (map PyDict es) =
     (if es = [] then Inl StatisticsError else Inl TypeError)"
  by (cases es) (simp_all add: statistics_mean_objects_def)

text \<open>
  In the revision every call of \<open>update_drift\<close> that leaves at least three entries in the
  history raises: \<open>statistics.mean\<close> is applied to the dicts of the history, not to their
  drifts.
\<close>

lemma cfg_update_drift_raises:
  assumes "cfg_update_drift d drift s t = (r, d')"
  shows "r = (if length (drift_history d') < 3 then None
              else if slice_from_neg (recent_drifts_window d') (drift_history d') = []
                   then Some StatisticsError else Some TypeError)"
  using assms
  by (auto simp: cfg_update_drift_def Let_def statistics_mean_objects_dicts split: if_splits)

text \<open>
  C1 fails in \<open>src/src/sync_controller.py\<close>: with all defaults, the first two reports of a
  registered device return and the third raises \<open>TypeError\<close> out of
  \<open>update_device_drift\<close>.
\<close>

theorem cfg_update_device_drift_third_report_raises:
  "raised_by_reports cfg_one_device ''A'' [(1, -50, 100, 100), (2, -50, 101, 101)] = None
   \<and> raised_by_reports cfg_one_device ''A''
        [(1, -50, 100, 100), (2, -50, 101, 101), (3, -50, 102, 102)] = Some TypeError"
  by (simp add: raised_by_reports_def cfg_one_device_def cfg_register_device_def
      cfg_SyncController_def cfg_DeviceState_def default_device_state_config_def
      dict_get_def dict_set_def Let_def cfg_update_device_drift_def cfg_update_drift_def
      deque_append_def slice_from_neg_def statistics_mean_objects_def
      cfg_check_synchronization_def cfg_sync_group_def cfg_stable_devices_def
      cfg_is_stable_def cfg_is_stable_with_def)

section \<open>Properties of AudioBuffer\<close>

lemma small_buffer_eq:
  "small_buffer = Inr \<lparr> sample_rate = 4, buffer_duration = 2, channels = 1, buffer_size = 8,
       buffer = [[1], [2], [3], [0], [0], [0], [0], [0]], write_index = 3,
       samples_written = 3, start_time = 0, last_write_time = 1 \<rparr>"
  by (simp add: small_buffer_def AudioBuffer_def py_int_def write_buffer_def adjust_shape_def
      eval_nat_numeral)

text \<open>
  C2 fails on the code: in a mono buffer of 8 frames at 4 Hz that holds the three written
  frames 1, 2, 3, a read of one second (4 frames, more than were written) at offset 0 is
  clamped to 3 frames but starts at the position computed for 4 frames, one row before the
  first written row: it returns the unwritten row 0 and the frames 1, 2, and misses the
  newest frame 3. The timestamp it returns, 0, is that of the window 1, 2, 3, which a read
  of exactly three frames does return.
\<close>

theorem clamped_read_misses_newest_frame:
  "read_from small_buffer 1 0 = Inr ([[0], [1], [2]], 0)
   \<and> last_n 3 (stored_rows 1 (Array1 [1, 2, 3])) = [[1], [2], [3]]
   \<and> read_from small_buffer (3/4) 0 = Inr ([[1], [2], [3]], 0)"
  by (simp add: small_buffer_eq read_from_def read_def py_int_def stored_rows_def
      adjust_shape_def last_n_def eval_nat_numeral upt_rec)

section \<open>Stability under an outlier sample\<close>

lemma sum_squared_deviations:
  "sum_list (map (\<lambda>y. (y - c)\<^sup>2) xs)
     = sum_list (map (\<lambda>y. y\<^sup>2) xs) - 2 * c * sum_list xs + real (length xs) * c\<^sup>2"
  by (induction xs) (simp_all add: power2_eq_square algebra_simps)

text \<open>
  The sum of squared deviations from the mean after one more value \<open>x\<close>: the old sum plus
  \<open>n / (n + 1)\<close> times the squared distance of \<open>x\<close> from the old mean.
\<close>

lemma deviation_algebra:
  fixes n k x S1 :: real
  assumes n: "n > 0" and k: "k = n + 1"
  shows "x\<^sup>2 - (S1 + x)\<^sup>2 / k = - (S1\<^sup>2 / n) + n / k * (x - S1 / n)\<^sup>2"
proof -
  have k0: "k > 0" using n k by simp
  have L: "(x\<^sup>2 - (S1 + x)\<^sup>2 / k) * (n * k) = x\<^sup>2 * n * k - (S1 + x)\<^sup>2 * n"
    using k0 by (simp add: field_simps)
  have "n * (x - S1 / n) = n * x - S1" using n by (simp add: field_simps)
  then have sq: "n\<^sup>2 * (x - S1 / n)\<^sup>2 = (n * x - S1)\<^sup>2"
    by (simp add: power_mult_distrib [symmetric])
  have "(- (S1\<^sup>2 / n) + n / k * (x - S1 / n)\<^sup>2) * (n * k)
          = - (S1\<^sup>2 * k) + n\<^sup>2 * (x - S1 / n)\<^sup>2"
    using n k0 by (simp add: field_simps power2_eq_square)
  also have "\<dots> = - (S1\<^sup>2 * k) + (n * x - S1)\<^sup>2" by (simp only: sq)
  also have "\<dots> = x\<^sup>2 * n * k - (S1 + x)\<^sup>2 * n"
    unfolding k by (simp add: power2_eq_square algebra_simps)
  finally have "(- (S1\<^sup>2 / n) + n / k * (x - S1 / n)\<^sup>2) * (n * k)
                  = (x\<^sup>2 - (S1 + x)\<^sup>2 / k) * (n * k)"
    using L by simp
  then show ?thesis using n k0 by simp
qed

lemma mean_square_algebra:
  fixes k T A :: real
  assumes "k > 0"
  shows "A - 2 * (T / k) * T + k * (T / k)\<^sup>2 = A - T\<^sup>2 / k"
  using assms by (simp add: power2_eq_square field_simps)

text \<open>
  The sum of squared deviations from the mean after one more value \<open>x\<close>: the old sum plus
  \<open>n / (n + 1)\<close> times the squared distance of \<open>x\<close> from the old mean.
\<close>

lemma squared_deviations_append:
  fixes xs :: "real list" and x :: real
  assumes "xs \<noteq> []"
  defines "n \<equiv> real (length xs)"
  defines "m \<equiv> sum_list xs / n"
  defines "m' \<equiv> sum_list (xs @ [x]) / (n + 1)"
  shows "sum_list (map (\<lambda>y. (y - m')\<^sup>2) (xs @ [x]))
           = sum_list (map (\<lambda>y. (y - m)\<^sup>2) xs) + n / (n + 1) * (x - m)\<^sup>2"
proof -
  have n: "n > 0" using assms by simp
  then have n1: "n + 1 > 0" by simp
  define S1 where "S1 = sum_list xs"
  define S2 where "S2 = sum_list (map (\<lambda>y. y\<^sup>2) xs)"
  have m: "m = S1 / n" and m': "m' = (S1 + x) / (n + 1)"
    by (simp_all add: m_def m'_def S1_def)
  have "sum_list (map (\<lambda>y. (y - m)\<^sup>2) xs) = S2 - 2 * m * S1 + n * m\<^sup>2"
    by (simp add: sum_squared_deviations S1_def S2_def n_def)
  also have "\<dots> = S2 - S1\<^sup>2 / n"
    unfolding m using mean_square_algebra [OF n, of S2 S1] by simp
  finally have old: "sum_list (map (\<lambda>y. (y - m)\<^sup>2) xs) = S2 - S1\<^sup>2 / n" .
  have "sum_list (map (\<lambda>y. (y - m')\<^sup>2) (xs @ [x]))
          = sum_list (map (\<lambda>y. y\<^sup>2) (xs @ [x])) - 2 * m' * sum_list (xs @ [x])
            + real (length (xs @ [x])) * m'\<^sup>2"
    by (rule sum_squared_deviations)
  also have "\<dots> = (S2 + x\<^sup>2) - 2 * m' * (S1 + x) + (n + 1) * m'\<^sup>2"
    by (simp add: S1_def S2_def n_def algebra_simps)
  also have "\<dots> = (S2 + x\<^sup>2) - (S1 + x)\<^sup>2 / (n + 1)"
    unfolding m' using mean_square_algebra [OF n1, of "S2 + x\<^sup>2" "S1 + x"] by simp
  finally have new: "sum_list (map (\<lambda>y. (y - m')\<^sup>2) (xs @ [x]))
                       = S2 + (x\<^sup>2 - (S1 + x)\<^sup>2 / (n + 1))" by simp
  have "sum_list (map (\<lambda>y. (y - m')\<^sup>2) (xs @ [x]))
          = (S2 - S1\<^sup>2 / n) + n / (n + 1) * (x - m)\<^sup>2"
    unfolding new m using deviation_algebra [OF n refl, of x S1] by simp
  then show ?thesis by (simp only: old)
qed

lemma variance_step:
  fixes SS n d2 :: real
  assumes SS: "0 \<le> SS" and n: "2 \<le> n" and out: "d2 > 9 * (SS / (n - 1))"
  shows "SS / (n - 1) \<le> (SS + n / (n + 1) * d2) / n"
proof -
  have pos: "n - 1 > 0" "n + 1 > 0" "n > 0" using n by simp_all
  have v: "0 \<le> SS / (n - 1)" using SS pos by simp
  have "n / (n + 1) * (9 * (SS / (n - 1))) \<le> n / (n + 1) * d2"
    using out pos by (intro mult_left_mono) simp_all
  moreover have "SS / (n - 1) \<le> n / (n + 1) * (9 * (SS / (n - 1)))"
  proof -
    have "1 \<le> n / (n + 1) * 9" using pos by (simp add: field_simps)
    then have "1 * (SS / (n - 1)) \<le> (n / (n + 1) * 9) * (SS / (n - 1))"
      using v by (rule mult_right_mono)
    then show ?thesis by (simp add: mult.assoc)
  qed
  ultimately have "SS / (n - 1) \<le> n / (n + 1) * d2" by simp
  then have "SS + SS / (n - 1) \<le> SS + n / (n + 1) * d2" by simp
  moreover have "SS + SS / (n - 1) = n * (SS / (n - 1))"
    using pos by (simp add: field_simps)
  ultimately have "n * (SS / (n - 1)) \<le> SS + n / (n + 1) * d2" by simp
  then have "SS / (n - 1) * n \<le> SS + n / (n + 1) * d2" by (simp only: mult.commute)
  then show ?thesis using pos(3) by (simp only: pos_le_divide_eq)
qed

text \<open>
  One more value farther than three standard deviations from the mean does not lower the
  sample variance.
\<close>

lemma variance_outlier:
  assumes len: "2 \<le> length xs"
    and m: "statistics_mean xs = Inr m" and v: "statistics_variance xs = Inr v"
    and out: "(x - m)\<^sup>2 > 9 * v"
  shows "\<exists>v'. statistics_variance (xs @ [x]) = Inr v' \<and> v \<le> v'"
proof -
  let ?n = "real (length xs)"
  let ?SS = "sum_list (map (\<lambda>y. (y - m)\<^sup>2) xs)"
  from len have ne: "xs \<noteq> []" by auto
  from m ne have m_eq: "m = sum_list xs / ?n" by (simp add: statistics_mean_def)
  from len have n1: "real (length xs - 1) = ?n - 1" by (simp add: of_nat_diff)
  from v len have v_eq: "v = ?SS / (?n - 1)"
    by (simp add: statistics_variance_def Let_def m_eq n1)
  have SS: "0 \<le> ?SS" by (rule sum_list_nonneg) auto
  have n: "2 \<le> ?n" using len by simp
  let ?m' = "sum_list (xs @ [x]) / (?n + 1)"
  have new: "sum_list (map (\<lambda>y. (y - ?m')\<^sup>2) (xs @ [x])) = ?SS + ?n / (?n + 1) * (x - m)\<^sup>2"
    unfolding m_eq by (rule squared_deviations_append [OF ne])
  have "statistics_variance (xs @ [x])
          = Inr (sum_list (map (\<lambda>y. (y - ?m')\<^sup>2) (xs @ [x])) / ?n)"
    using len ne by (simp add: statistics_variance_def Let_def algebra_simps)
  then have "statistics_variance (xs @ [x]) = Inr ((?SS + ?n / (?n + 1) * (x - m)\<^sup>2) / ?n)"
    by (simp only: new)
  moreover have "v \<le> (?SS + ?n / (?n + 1) * (x - m)\<^sup>2) / ?n"
    unfolding v_eq using out by (intro variance_step [OF SS n]) (simp add: v_eq)
  ultimately show ?thesis by blast
qed

lemma variance_nonneg:
  assumes "statistics_variance xs = Inr v"
  shows "0 \<le> v"
proof -
  have "0 \<le> sum_list (map (\<lambda>y. (y - c)\<^sup>2) xs)" for c :: real
    by (rule sum_list_nonneg) auto
  with assms show ?thesis
    by (auto simp: statistics_variance_def Let_def split: if_splits)
qed

lemma three_sigma_squared:
  assumes "0 \<le> v" and "\<bar>a\<bar> > 3 * sqrt v"
  shows "a\<^sup>2 > 9 * v"
proof -
  have "0 \<le> 3 * sqrt v" using assms(1) by simp
  then have "(3 * sqrt v)\<^sup>2 < \<bar>a\<bar>\<^sup>2"
    using assms(2) by (intro power_strict_mono) simp_all
  moreover have "(3 * sqrt v)\<^sup>2 = 9 * v"
    using assms(1) by (simp add: power_mult_distrib)
  ultimately show ?thesis by simp
qed

lemma quality_formula_mono:
  assumes "s \<le> s0" and "v \<le> v'"
  shows "quality_formula s v' \<le> quality_formula s0 v"
proof -
  have a: "max 0 (min 1 ((s + 80) / 30)) \<le> max 0 (min 1 ((s0 + 80) / 30))"
    using assms(1) by (intro max.mono min.mono order_refl divide_right_mono) simp_all
  have b: "max 0 (min 1 (1 - v' / 100)) \<le> max 0 (min 1 (1 - v / 100))"
    using assms(2) by (intro max.mono min.mono order_refl diff_left_mono divide_right_mono) simp_all
  have "max 0 (min 1 ((s + 80) / 30)) + max 0 (min 1 (1 - v' / 100))
          \<le> max 0 (min 1 ((s0 + 80) / 30)) + max 0 (min 1 (1 - v / 100))"
    using a b by (rule add_mono)
  then show ?thesis
    unfolding quality_formula_def by (rule divide_right_mono) simp
qed

lemma update_drift_stats:
  assumes "update_drift d0 x0 s0 t0 = Inr d" and "3 \<le> length (drift_history d)"
  shows "statistics_mean (map e_drift_ms (last_n 10 (drift_history d))) = Inr (avg_drift_ms d)"
    and "statistics_variance (map e_drift_ms (last_n 10 (drift_history d)))
           = Inr (drift_variance d)"
    and "connection_quality d = quality_formula s0 (drift_variance d)"
  using assms
  by (auto simp: update_drift_def update_statistics_def Let_def quality_formula_def
      last_n_def split: if_splits sum.splits)

lemma update_drift_append:
  assumes "length (drift_history d) < 10" and "3 \<le> Suc (length (drift_history d))"
    and "statistics_mean (map e_drift_ms (drift_history d) @ [x]) = Inr m'"
    and "statistics_variance (map e_drift_ms (drift_history d) @ [x]) = Inr v'"
  shows "update_drift d x s t =
           Inr (d\<lparr> drift_history := drift_history d
                       @ [\<lparr> e_drift_ms = x, e_timestamp = t, e_signal_strength = s \<rparr>],
                   last_drift_ms := x, last_drift_time := t, is_online := True, last_seen := t,
                   avg_drift_ms := m', drift_variance := v',
                   connection_quality := quality_formula s v' \<rparr>)"
proof -
  have "drift_history d \<noteq> []" using assms(2) by auto
  with assms show ?thesis
    by (simp add: update_drift_def update_statistics_def Let_def deque_append_def last_n_def
        quality_formula_def)
qed

text \<open>
  C6 as stated fails: a device with four identical samples is not stable (fewer than five
  measurements), its average is 0 and its standard deviation is 0, so a fifth sample 1 lies
  outside three standard deviations; after it the device holds five samples of variance
  0.2 and is stable.
\<close>

theorem fifth_sample_counterexample:
  "device_reports (DeviceState ''A'' 0) [(0, 1, 1), (0, 1, 1), (0, 1, 1), (0, 1, 1)]
     = Inr (device_with [0, 0, 0, 0] (-50) 0 0 1)
   \<and> \<not> is_stable (device_with [0, 0, 0, 0] (-50) 0 0 1)
   \<and> \<bar>1 - avg_drift_ms (device_with [0, 0, 0, 0] (-50) 0 0 1)\<bar>
       > 3 * sqrt (drift_variance (device_with [0, 0, 0, 0] (-50) 0 0 1))
   \<and> update_drift (device_with [0, 0, 0, 0] (-50) 0 0 1) 1 (-50) 1
       = Inr (device_with [0, 0, 0, 0, 1] (-50) (1/5) (1/5) (999/1000))
   \<and> is_stable (device_with [0, 0, 0, 0, 1] (-50) (1/5) (1/5) (999/1000))"
  by (simp add: device_with_def DeviceState_def update_drift_def update_statistics_def
      deque_append_def last_n_def statistics_mean_def statistics_variance_def Let_def
      power2_eq_square is_stable_def is_stable_with_def)

text \<open>
  C6 amended: let the device be as a call of \<open>update_drift\<close> left it, with at least 5 and
  fewer than 10 samples, so that the new sample neither completes the five measurements nor
  pushes a sample out of the window of ten, and let it be unstable. Then an update whose drift
  differs from the average by more than three standard deviations leaves it unstable,
  provided that the new signal strength is not above that of the previous update when the
  variance is within the stability bound: the variance over the window does not decrease.
\<close>

theorem outlier_keeps_unstable:
  assumes prev: "update_drift d0 x0 s0 t0 = Inr d"
    and len: "5 \<le> length (drift_history d)" "length (drift_history d) < 10"
    and unstable: "\<not> is_stable d"
    and outlier: "\<bar>x - avg_drift_ms d\<bar> > 3 * sqrt (drift_variance d)"
    and signal: "drift_variance d \<le> 25 \<longrightarrow> s \<le> s0"
  shows "\<exists>d'. update_drift d x s t = Inr d' \<and> \<not> is_stable d'"
proof -
  let ?xs = "map e_drift_ms (drift_history d)"
  have window: "last_n 10 (drift_history d) = drift_history d"
    using len by (simp add: last_n_def)
  from len have three: "3 \<le> length (drift_history d)" by simp
  note stats = update_drift_stats [OF prev three, unfolded window]
  have v0: "0 \<le> drift_variance d" using stats(2) by (rule variance_nonneg)
  have out2: "(x - avg_drift_ms d)\<^sup>2 > 9 * drift_variance d"
    using v0 outlier by (rule three_sigma_squared)
  have "2 \<le> length ?xs" using len by simp
  from variance_outlier [OF this stats(1) stats(2) out2]
  obtain v' where v': "statistics_variance (?xs @ [x]) = Inr v'" and mono: "drift_variance d \<le> v'"
    by blast
  obtain m' where m': "statistics_mean (?xs @ [x]) = Inr m'"
    by (simp add: statistics_mean_def)
  let ?d' = "d\<lparr> drift_history := drift_history d
                       @ [\<lparr> e_drift_ms = x, e_timestamp = t, e_signal_strength = s \<rparr>],
                   last_drift_ms := x, last_drift_time := t, is_online := True, last_seen := t,
                   avg_drift_ms := m', drift_variance := v',
                   connection_quality := quality_formula s v' \<rparr>"
  have upd: "update_drift d x s t = Inr ?d'"
    using len m' v' by (intro update_drift_append) simp_all
  have "\<not> is_stable ?d'"
  proof (cases "drift_variance d \<le> 25")
    case False
    with mono show ?thesis by (simp add: is_stable_def is_stable_with_def)
  next
    case True
    with unstable len have "connection_quality d < 1/2"
      by (simp add: is_stable_def is_stable_with_def)
    moreover from True signal have "s \<le> s0" by simp
    then have "quality_formula s v' \<le> quality_formula s0 (drift_variance d)"
      using mono by (rule quality_formula_mono)
    ultimately show ?thesis
      using stats(3) by (simp add: is_stable_def is_stable_with_def)
  qed
  with upd show ?thesis by blast
qed

theorem outlier_keeps_unstable_witness:
  "update_drift (device_with [10, 12, 11, 10] (-80) 0 0 1) 12 (-80) 1
     = Inr (device_with [10, 12, 11, 10, 12] (-80) 11 1 (99/200))
   \<and> 5 \<le> length (drift_history (device_with [10, 12, 11, 10, 12] (-80) 11 1 (99/200)))
   \<and> length (drift_history (device_with [10, 12, 11, 10, 12] (-80) 11 1 (99/200))) < 10
   \<and> \<not> is_stable (device_with [10, 12, 11, 10, 12] (-80) 11 1 (99/200))
   \<and> \<bar>15 - avg_drift_ms (device_with [10, 12, 11, 10, 12] (-80) 11 1 (99/200))\<bar>
       > 3 * sqrt (drift_variance (device_with [10, 12, 11, 10, 12] (-80) 11 1 (99/200)))
   \<and> (\<exists>d'. update_drift (device_with [10, 12, 11, 10, 12] (-80) 11 1 (99/200)) 15 (-80) 1 = Inr d'
          \<and> \<not> is_stable d')"
proof -
  let ?d = "device_with [10, 12, 11, 10, 12] (-80) 11 1 (99/200)"
  have h1: "update_drift (device_with [10, 12, 11, 10] (-80) 0 0 1) 12 (-80) 1 = Inr ?d"
    by (simp add: device_with_def update_drift_def update_statistics_def deque_append_def
        last_n_def statistics_mean_def statistics_variance_def Let_def power2_eq_square)
  have h2: "5 \<le> length (drift_history ?d)" and h3: "length (drift_history ?d) < 10"
    by (simp_all add: device_with_def)
  have h4: "\<not> is_stable ?d"
    by (simp add: device_with_def is_stable_def is_stable_with_def)
  have h5: "\<bar>15 - avg_drift_ms ?d\<bar> > 3 * sqrt (drift_variance ?d)"
    by (simp add: device_with_def)
  have h6: "drift_variance ?d \<le> 25 \<longrightarrow> (-80::real) \<le> -80" by simp
  from outlier_keeps_unstable [OF h1 h2 h3 h4 h5 h6, of 1]
  show ?thesis using h1 h2 h3 h4 h5 by blast
qed

text \<open>
  The two side conditions of the amended claim are needed. When the window of ten is full,
  the new sample pushes the oldest one out: the window 17, 0, ..., 0 has variance 28.9, the
  outlier -15 replaces the 17 and the variance falls to 22.5.
\<close>

lemma outlier_window_slide_example:
  "update_drift (device_with [17, 0, 0, 0, 0, 0, 0, 0, 0] (-50) 0 0 1) 0 (-50) 1
     = Inr (device_with [17, 0, 0, 0, 0, 0, 0, 0, 0, 0] (-50) (17/10) (289/10) (1711/2000))
   \<and> \<not> is_stable (device_with [17, 0, 0, 0, 0, 0, 0, 0, 0, 0] (-50) (17/10) (289/10) (1711/2000))
   \<and> \<bar>-15 - (17/10)\<bar> > 3 * sqrt (289/10)
   \<and> update_drift (device_with [17, 0, 0, 0, 0, 0, 0, 0, 0, 0] (-50) (17/10) (289/10) (1711/2000))
         (-15) (-50) 1
     = Inr (device_with [17, 0, 0, 0, 0, 0, 0, 0, 0, 0, -15] (-50) (-3/2) (45/2) (71/80))
   \<and> is_stable (device_with [17, 0, 0, 0, 0, 0, 0, 0, 0, 0, -15] (-50) (-3/2) (45/2) (71/80))"
proof -
  have "sqrt (289/10) < 167/30"
    by (rule real_less_lsqrt) (simp_all add: power2_eq_square)
  then have "\<bar>-15 - (17/10)\<bar> > 3 * sqrt (289/10)" by simp
  then show ?thesis
    by (simp add: device_with_def update_drift_def update_statistics_def deque_append_def
        last_n_def statistics_mean_def statistics_variance_def Let_def power2_eq_square
        is_stable_def is_stable_with_def)
qed

text \<open>
  When the instability comes from the connection quality, a stronger signal on the outlier
  sample raises the quality: five samples of variance 1 reported at -80 dBm give quality
  0.495; the outlier 15 reported at -50 dBm gives variance 52/15 and a stable device.
\<close>

lemma outlier_signal_rise_example:
  "\<not> is_stable (device_with [10, 12, 11, 10, 12] (-80) 11 1 (99/200))
   \<and> \<bar>15 - 11\<bar> > 3 * sqrt (1::real)
   \<and> map_option is_stable
        (returned (update_drift (device_with [10, 12, 11, 10, 12] (-80) 11 1 (99/200))
                     15 (-50) 1)) = Some True"
  by (simp add: device_with_def update_drift_def update_statistics_def deque_append_def
      last_n_def statistics_mean_def statistics_variance_def Let_def power2_eq_square
      is_stable_def is_stable_with_def returned_def)

section \<open>Properties of the protocol\<close>

lemma dict_set_fresh: "k \<notin> fst ` set kvs \<Longrightarrow> dict_set kvs k v = kvs @ [(k, v)]"
  by (simp add: dict_set_def)

lemma foldl_dict_set_distinct:
  "distinct (map fst (acc @ kvs)) \<Longrightarrow>
   foldl (\<lambda>d (k, v). dict_set d k v) acc kvs = acc @ kvs"
proof (induction kvs arbitrary: acc)
  case Nil
  then show ?case by simp
next
  case (Cons kv kvs)
  obtain k v where kv: "kv = (k, v)" by (cases kv)
  from Cons.prems kv have fresh: "k \<notin> fst ` set acc" by auto
  from Cons.prems kv have "distinct (map fst ((acc @ [(k, v)]) @ kvs))" by simp
  from Cons.IH [OF this] show ?case
    using kv fresh by (simp add: dict_set_fresh)
qed

text \<open>On the values JSON represents, \<open>json.loads\<close> after \<open>json.dumps\<close> is the identity.\<close>

lemma json_roundtrip: "json_native v \<Longrightarrow> json_loads (json_dumps v) = v"
proof (induction v)
  case (PList xs)
  then show ?case by (simp add: list_all_iff map_idI)
next
  case (PDict kvs)
  from PDict.prems have dist: "distinct (map fst kvs)"
    and nat: "\<And>k v. (k, v) \<in> set kvs \<Longrightarrow> json_native v"
    by (auto simp: list_all_iff)
  have "map_prod id json_loads (map_prod id json_dumps kv) = kv" if kv: "kv \<in> set kvs" for kv
  proof -
    obtain k v where eq: "kv = (k, v)" by (cases kv)
    with kv have "v \<in> Basic_BNFs.snds kv" by simp
    from PDict.IH [OF kv this] nat kv eq show ?thesis by simp
  qed
  then have "map (\<lambda>kv. map_prod id json_loads (map_prod id json_dumps kv)) kvs = kvs"
    by (rule map_idI)
  then have "map (map_prod id json_loads) (map (map_prod id json_dumps) kvs) = kvs"
    by (simp add: comp_def)
  moreover have "distinct (map fst ([] @ kvs))" using dist by simp
  ultimately show ?case
    using foldl_dict_set_distinct [of "[]" kvs] by simp
qed simp_all

text \<open>Every constructor returns the message from the dict of its own fields.\<close>

lemma DriftReportMessage_asdict:
  "dr_measurement_time m \<noteq> PNone \<Longrightarrow>
   DriftReportMessage (asdict (DriftReport m)) t = Inr (DriftReport m)"
  by (simp add: DriftReportMessage_def bind_fields_def default_time_def)

lemma BufferOffsetMessage_asdict:
  "bo_timestamp m \<noteq> PNone \<Longrightarrow>
   BufferOffsetMessage (asdict (BufferOffset m)) t = Inr (BufferOffset m)"
  by (simp add: BufferOffsetMessage_def bind_fields_def default_time_def)

lemma DeviceRegisterMessage_asdict:
  "reg_capabilities m \<noteq> PNone \<Longrightarrow>
   DeviceRegisterMessage (asdict (DeviceRegister m)) t = Inr (DeviceRegister m)"
  by (simp add: DeviceRegisterMessage_def bind_fields_def)

lemma DeviceStatusMessage_asdict:
  "st_timestamp m \<noteq> PNone \<Longrightarrow>
   DeviceStatusMessage (asdict (DeviceStatus m)) t = Inr (DeviceStatus m)"
  by (simp add: DeviceStatusMessage_def bind_fields_def default_time_def)

lemma HeartbeatMessage_asdict:
  "hb_timestamp m \<noteq> PNone \<Longrightarrow>
   HeartbeatMessage (asdict (Heartbeat m)) t = Inr (Heartbeat m)"
  by (simp add: HeartbeatMessage_def bind_fields_def default_time_def)

lemma ConfigUpdateMessage_asdict:
  "cu_timestamp m \<noteq> PNone \<Longrightarrow>
   ConfigUpdateMessage (asdict (ConfigUpdate m)) t = Inr (ConfigUpdate m)"
  by (simp add: ConfigUpdateMessage_def bind_fields_def default_time_def)

lemma CommandMessage_asdict:
  "cmd_timestamp m \<noteq> PNone \<Longrightarrow> cmd_params m \<noteq> PNone \<Longrightarrow> cmd_command_id m \<noteq> PNone \<Longrightarrow>
   CommandMessage (asdict (Command m)) t = Inr (Command m)"
  by (simp add: CommandMessage_def bind_fields_def default_time_def)

lemma SyncStatusMessage_asdict:
  "ss_timestamp m \<noteq> PNone \<Longrightarrow>
   SyncStatusMessage (asdict (SyncStatus m)) t = Inr (SyncStatus m)"
  by (simp add: SyncStatusMessage_def bind_fields_def default_time_def)

lemma well_formed_native: "well_formed m \<Longrightarrow> json_native (asdict m)"
  by (cases m) simp_all

text \<open>
  C9: for every well-formed message of each of the eight message types, deserializing the
  serialized message under the type of the message returns a message equal to it, at any
  clock reading.
\<close>

theorem serialize_deserialize_roundtrip:
  assumes "well_formed m"
  shows "deserialize_message (type_of_message m) (Text (serialize_message (Instance m))) t
           = Inr m"
proof -
  have loads: "json_loads (json_dumps (asdict m)) = asdict m"
    using assms by (intro json_roundtrip well_formed_native)
  show ?thesis
  proof (cases m)
    case (DriftReport x)
    with assms loads show ?thesis
      by (simp add: deserialize_message_def DriftReportMessage_asdict del: asdict.simps)
  next
    case (BufferOffset x)
    with assms loads show ?thesis
      by (simp add: deserialize_message_def BufferOffsetMessage_asdict del: asdict.simps)
  next
    case (DeviceRegister x)
    with assms loads show ?thesis
      by (simp add: deserialize_message_def DeviceRegisterMessage_asdict del: asdict.simps)
  next
    case (DeviceStatus x)
    with assms loads show ?thesis
      by (simp add: deserialize_message_def DeviceStatusMessage_asdict del: asdict.simps)
  next
    case (Heartbeat x)
    with assms loads show ?thesis
      by (simp add: deserialize_message_def HeartbeatMessage_asdict del: asdict.simps)
  next
    case (ConfigUpdate x)
    with assms loads show ?thesis
      by (simp add: deserialize_message_def ConfigUpdateMessage_asdict del: asdict.simps)
  next
    case (Command x)
    with assms loads show ?thesis
      by (simp add: deserialize_message_def CommandMessage_asdict del: asdict.simps)
  next
    case (SyncStatus x)
    with assms loads show ?thesis
      by (simp add: deserialize_message_def SyncStatusMessage_asdict del: asdict.simps)
  qed
qed

theorem serialize_deserialize_roundtrip_witness:
  "well_formed (Command \<lparr> cmd_device_id = PStr ''bedroom'', cmd_command = PStr ''set_volume'',
                  cmd_params = PDict [(''volume'', PFloat (4/5))],
                  cmd_command_id = PStr ''cmd_1000'', cmd_timestamp = PFloat 1 \<rparr>)
   \<and> deserialize_message COMMAND
        (Text (serialize_message (Instance
           (Command \<lparr> cmd_device_id = PStr ''bedroom'', cmd_command = PStr ''set_volume'',
                  cmd_params = PDict [(''volume'', PFloat (4/5))],
                  cmd_command_id = PStr ''cmd_1000'', cmd_timestamp = PFloat 1 \<rparr>)))) 5
      = Inr (Command \<lparr> cmd_device_id = PStr ''bedroom'', cmd_command = PStr ''set_volume'',
                  cmd_params = PDict [(''volume'', PFloat (4/5))],
                  cmd_command_id = PStr ''cmd_1000'', cmd_timestamp = PFloat 1 \<rparr>)"
proof -
  let ?m = "Command \<lparr> cmd_device_id = PStr ''bedroom'', cmd_command = PStr ''set_volume'',
                  cmd_params = PDict [(''volume'', PFloat (4/5))],
                  cmd_command_id = PStr ''cmd_1000'', cmd_timestamp = PFloat 1 \<rparr>"
  have wf: "well_formed ?m" by simp
  from serialize_deserialize_roundtrip [OF wf, of 5] wf show ?thesis by simp
qed

text \<open>
  What well-formedness excludes. A tuple inside \<open>config\<close> comes back as a list, and a
  command serialized without a command id comes back with a generated one.
\<close>

lemma config_tuple_example:
  "deserialize_message CONFIG_UPDATE
     (Text (serialize_message (Instance
        (ConfigUpdate \<lparr> cu_device_id = PStr ''kitchen'',
                         cu_config = PDict [(''pins'', PTuple [PInt 1, PInt 2])],
                         cu_config_version = PStr ''1.0'', cu_timestamp = PFloat 1 \<rparr>)))) 5
   = Inr (ConfigUpdate \<lparr> cu_device_id = PStr ''kitchen'',
                         cu_config = PDict [(''pins'', PList [PInt 1, PInt 2])],
                         cu_config_version = PStr ''1.0'', cu_timestamp = PFloat 1 \<rparr>)"
  by (simp add: deserialize_message_def ConfigUpdateMessage_def bind_fields_def
      default_time_def dict_set_def)

lemma command_id_example:
  "deserialize_message COMMAND
     (Text (serialize_message (Instance
        (Command \<lparr> cmd_device_id = PStr ''bedroom'', cmd_command = PStr ''mute'',
                    cmd_params = PDict [], cmd_command_id = PNone,
                    cmd_timestamp = PFloat (3/2) \<rparr>)))) 5
   = Inr (Command \<lparr> cmd_device_id = PStr ''bedroom'', cmd_command = PStr ''mute'',
                    cmd_params = PDict [], cmd_command_id = PStr ''cmd_1500'',
                    cmd_timestamp = PFloat (3/2) \<rparr>)"
  by (simp add: deserialize_message_def CommandMessage_def bind_fields_def default_time_def
      dict_set_def generated_command_id_def py_int_def string_of_int_def digit_char_def Let_def)

end
